theory Spec2Isabelle
  imports Complex_Main "HOL-Library.Char_ord" "HOL-Library.List_Lexorder"
begin

section \<open>Data model\<close>

text \<open>
  The four scripts (\<^verbatim>\<open>corp.py\<close>, \<^verbatim>\<open>corp2.py\<close>, \<^verbatim>\<open>corp3.py\<close>, \<^verbatim>\<open>corp_fin.py\<close>) compute
  on pandas frames and Python dicts. Numbers are modelled as exact reals: the balances are
  the sidebar's numeric inputs, the yields are decimal fractions, and the properties proved
  below are the ones of exact arithmetic (binary floating point is outside the model).

  A balance-sheet frame (\<^verbatim>\<open>assets\<close>, \<^verbatim>\<open>liabilities\<close>, \<^verbatim>\<open>liabs\<close>) is the list of its rows in
  frame order, each row with the columns \<^verbatim>\<open>Type\<close>, \<^verbatim>\<open>Balance\<close> and \<^verbatim>\<open>Code\<close>. A yield map
  (\<^verbatim>\<open>yields_current\<close>, \<^verbatim>\<open>shifted\<close>, ...) is a dict from rate code to yield, a partial map.
\<close>

record row =
  Type :: string
  Balance :: real
  Code :: string

type_synonym sheet = "row list"

type_synonym yields = "string \<rightharpoonup> real"

text \<open>A row of the frame returned by \<^verbatim>\<open>calculate\<close>/\<^verbatim>\<open>calc\<close>: the input columns, the rate
  column in percent and the column named by the third argument (\<^verbatim>\<open>Income\<close> or \<^verbatim>\<open>Expense\<close>),
  held in \<open>Amount\<close> under the name \<open>Field\<close>.\<close>

record calc_row = row +
  Rate :: real
  Field :: string
  Amount :: real

datatype error = KeyError string

definition yield_codes :: "string list" where
  "yield_codes = [''GS3M'', ''GS1'', ''GS5'', ''GS10'']"

definition yield_labels :: "(string \<times> string) list" where
  "yield_labels = [(''GS3M'', ''3M''), (''GS1'', ''1Y''), (''GS5'', ''5Y''), (''GS10'', ''10Y'')]"

section \<open>NII calculator of corp.py and corp2.py\<close>

text \<open>
  \<^verbatim>\<open>
  def calculate(sheet,ylds,field):
      df=sheet.copy()
      df['Rate (%)']=df['Code'].map(lambda c: ylds.get(c,0)*100)
      df[field]=(df['Balance']*df['Rate (%)'])/100
      return df
  \<close>
  \<^verbatim>\<open>ylds.get(c,0)\<close> reads a missing code as the yield 0.
\<close>

definition dict_get :: "yields \<Rightarrow> string \<Rightarrow> real \<Rightarrow> real" where
  "dict_get ylds c d = (case ylds c of None \<Rightarrow> d | Some y \<Rightarrow> y)"

definition calculate_row :: "yields \<Rightarrow> string \<Rightarrow> row \<Rightarrow> calc_row" where
  "calculate_row ylds field r =
     (let rate = dict_get ylds (Code r) 0 * 100
      in \<lparr>Type = Type r, Balance = Balance r, Code = Code r,
          Rate = rate, Field = field, Amount = (Balance r * rate) / 100\<rparr>)"

definition calculate :: "sheet \<Rightarrow> yields \<Rightarrow> string \<Rightarrow> calc_row list" where
  "calculate sheet ylds field = map (calculate_row ylds field) sheet"

text \<open>\<^verbatim>\<open>df[field].sum()\<close> of a calculated frame.\<close>

definition column_sum :: "calc_row list \<Rightarrow> real" where
  "column_sum df = sum_list (map Amount df)"

text \<open>
  \<^verbatim>\<open>ii = a_calc['Income'].sum() - l_calc['Expense'].sum()\<close> together with its two totals.
\<close>

record nii_result =
  income :: real
  expense :: real
  nii :: real

definition compute_ii :: "sheet \<Rightarrow> sheet \<Rightarrow> yields \<Rightarrow> nii_result" where
  "compute_ii assets liabilities ylds =
     (let inc = column_sum (calculate assets ylds ''Income'');
          expn = column_sum (calculate liabilities ylds ''Expense'')
      in \<lparr>income = inc, expense = expn, nii = inc - expn\<rparr>)"

text \<open>Scaling every balance of a frame by \<open>k\<close> (the operation of the linearity property).\<close>

definition scale_sheet :: "real \<Rightarrow> sheet \<Rightarrow> sheet" where
  "scale_sheet k sheet = map (\<lambda>r. r\<lparr>Balance := k * Balance r\<rparr>) sheet"

section \<open>NII calculator of corp3.py and corp_fin.py\<close>

text \<open>
  \<^verbatim>\<open>
  def calc(sheet, yields_map, fld):
      df = sheet.copy()
      df['Rate (%)'] = df['Code'].map(lambda c: yields_map[c]*100)
      df[fld]       = df['Balance'] * df['Rate (%)'] / 100
      return df
  \<close>
  \<^verbatim>\<open>yields_map[c]\<close> raises \<^verbatim>\<open>KeyError(c)\<close> at the first row whose code the map lacks, and
  then no frame is returned.
\<close>

fun calc :: "sheet \<Rightarrow> yields \<Rightarrow> string \<Rightarrow> error + calc_row list" where
  "calc [] yields_map fld = Inr []"
| "calc (r # rs) yields_map fld =
     (case yields_map (Code r) of
        None \<Rightarrow> Inl (KeyError (Code r))
      | Some y \<Rightarrow>
          (case calc rs yields_map fld of
             Inl e \<Rightarrow> Inl e
           | Inr df \<Rightarrow>
               Inr (\<lparr>Type = Type r, Balance = Balance r, Code = Code r,
                     Rate = y * 100, Field = fld, Amount = Balance r * (y * 100) / 100\<rparr> # df)))"

text \<open>
  \<^verbatim>\<open>nii = a_calc['Income'].sum() - l_calc['Expense'].sum()\<close> (\<^verbatim>\<open>stressed_nii\<close> in
  corp_fin.py): the asset frame is calculated first.
\<close>

definition compute_nii :: "sheet \<Rightarrow> sheet \<Rightarrow> yields \<Rightarrow> error + real" where
  "compute_nii assets liabs yields_map =
     (case calc assets yields_map ''Income'' of
        Inl e \<Rightarrow> Inl e
      | Inr a_calc \<Rightarrow>
          (case calc liabs yields_map ''Expense'' of
             Inl e \<Rightarrow> Inl e
           | Inr l_calc \<Rightarrow> Inr (column_sum a_calc - column_sum l_calc)))"

text \<open>
  \<^verbatim>\<open>shifted = {c: yields_current[c] + shifts_map[c] for c in yield_codes}\<close>: the
  comprehension reads both dicts at every code, in the order of \<^verbatim>\<open>yield_codes\<close>.
\<close>

fun shifted_over :: "string list \<Rightarrow> yields \<Rightarrow> yields \<Rightarrow> error + yields" where
  "shifted_over [] yields_current shifts_map = Inr Map.empty"
| "shifted_over (c # cs) yields_current shifts_map =
     (case yields_current c of
        None \<Rightarrow> Inl (KeyError c)
      | Some y \<Rightarrow>
          (case shifts_map c of
             None \<Rightarrow> Inl (KeyError c)
           | Some s \<Rightarrow>
               (case shifted_over cs yields_current shifts_map of
                  Inl e \<Rightarrow> Inl e
                | Inr m \<Rightarrow> Inr (m(c \<mapsto> y + s)))))"

definition shifted :: "yields \<Rightarrow> yields \<Rightarrow> error + yields" where
  "shifted yields_current shifts_map = shifted_over yield_codes yields_current shifts_map"

text \<open>\<^verbatim>\<open>shifts_map = {c: base_shift for c in yield_codes}\<close>: the same shift at every code.\<close>

definition flat_shifts :: "real \<Rightarrow> yields" where
  "flat_shifts base_shift = map_of (map (\<lambda>c. (c, base_shift)) yield_codes)"

text \<open>\<^verbatim>\<open>assets['Balance'].sum()\<close>, the total shown as "Total Assets"/"Total Liabilities".\<close>

definition total_balance :: "sheet \<Rightarrow> real" where
  "total_balance sheet = sum_list (map Balance sheet)"

section \<open>The sidebar inputs and the frames built from them\<close>

text \<open>
  corp.py, corp3.py and corp_fin.py read six balances and build
  \<^verbatim>\<open>
  assets = pd.DataFrame([
      {'Type':'Loans','Balance':loans,'Code':'GS5'},
      {'Type':'Bonds','Balance':bonds,'Code':'GS10'},
      {'Type':'Cash', 'Balance':cash, 'Code':'GS3M'}])
  liabs = pd.DataFrame([
      {'Type':'Deposits','Balance':deposits,'Code':'GS1'},
      {'Type':'Short Borrow','Balance':borrow,'Code':'GS3M'},
      {'Type':'Corp Bonds','Balance':corp,'Code':'GS3M'}])
  balances = {'3M':cash,'1Y':deposits,'5Y':loans,'10Y':bonds}
  \<close>
\<close>

record inputs =
  loans :: real
  bonds :: real
  cash :: real
  deposits :: real
  borrow :: real
  corp :: real

definition assets_of :: "inputs \<Rightarrow> sheet" where
  "assets_of inp =
     [\<lparr>Type = ''Loans'', Balance = loans inp, Code = ''GS5''\<rparr>,
      \<lparr>Type = ''Bonds'', Balance = bonds inp, Code = ''GS10''\<rparr>,
      \<lparr>Type = ''Cash'', Balance = cash inp, Code = ''GS3M''\<rparr>]"

definition liabs_of :: "inputs \<Rightarrow> sheet" where
  "liabs_of inp =
     [\<lparr>Type = ''Deposits'', Balance = deposits inp, Code = ''GS1''\<rparr>,
      \<lparr>Type = ''Short Borrow'', Balance = borrow inp, Code = ''GS3M''\<rparr>,
      \<lparr>Type = ''Corp Bonds'', Balance = corp inp, Code = ''GS3M''\<rparr>]"

definition balances_of :: "inputs \<Rightarrow> (string \<times> real) list" where
  "balances_of inp =
     [(''3M'', cash inp), (''1Y'', deposits inp), (''5Y'', loans inp), (''10Y'', bonds inp)]"

section \<open>Waterfalls\<close>

text \<open>
  A row of a waterfall frame: \<^verbatim>\<open>Maturity\<close>, the delta column (named by the Greek letter
  delta followed by \<^verbatim>\<open>NII\<close> in the scripts), \<^verbatim>\<open>Start\<close> and \<^verbatim>\<open>End\<close>.
\<close>

record wf_step =
  Maturity :: string
  dNII :: real
  Start :: real
  End :: real

text \<open>
  Python's \<^verbatim>\<open>round(x, 2)\<close> in exact arithmetic: the nearest multiple of 1/100, a tie going
  to the even one.
\<close>

definition round_half_even :: "real \<Rightarrow> int" where
  "round_half_even x =
     (let f = \<lfloor>x\<rfloor>; d = x - of_int f
      in if d < 1 / 2 then f else if 1 / 2 < d then f + 1 else if even f then f else f + 1)"

definition round2 :: "real \<Rightarrow> real" where
  "round2 x = of_int (round_half_even (x * 100)) / 100"

subsection \<open>The frame built with cumsum (corp3.py, corp_fin.py)\<close>

text \<open>
  \<^verbatim>\<open>
  wf = pd.DataFrame([{'Maturity':'Baseline','dNII':0}] + deltas +
                    [{'Maturity':'Total','dNII': round(stressed_nii - baseline_nii, 2)}])
  wf['Start'] = wf['dNII'].cumsum().shift(fill_value=0)
  wf['End']   = wf['Start'] + wf['dNII']
  \<close>
  \<open>cumsum acc\<close> is the running total, \<open>shift_fill\<close> moves a column down by one row and
  fills the first row with the given value. corp.py has the same three statements, but its
  loop before them reads the names \<^verbatim>\<open>balances\<close> and \<^verbatim>\<open>current\<close>, which that script never
  binds: it raises NameError in the first pass of the loop and never reaches them.
\<close>

fun cumsum :: "real \<Rightarrow> real list \<Rightarrow> real list" where
  "cumsum acc [] = []"
| "cumsum acc (x # xs) = (acc + x) # cumsum (acc + x) xs"

definition shift_fill :: "real \<Rightarrow> real list \<Rightarrow> real list" where
  "shift_fill v xs = (if xs = [] then [] else v # butlast xs)"

definition wf_frame :: "(string \<times> real) list \<Rightarrow> real \<Rightarrow> wf_step list" where
  "wf_frame deltas tot =
     (let rows = [(''Baseline'', 0)] @ deltas @ [(''Total'', round2 tot)];
          starts = shift_fill 0 (cumsum 0 (map snd rows))
      in map (\<lambda>((m, d), s). \<lparr>Maturity = m, dNII = d, Start = s, End = s + d\<rparr>)
           (zip rows starts))"

text \<open>
  The loop of corp3.py and corp_fin.py that fills \<^verbatim>\<open>deltas\<close>:
  \<^verbatim>\<open>
  deltas, b0_sum, b1_sum = [], 0.0, 0.0
  for c,label in yield_labels.items():
      bal = balances[label]
      r0, r1 = yields_current[c], shifted[c]
      i0, i1 = bal*r0, bal*r1
      deltas.append({'Maturity':label,'dNII':round(i1-i0,2)})
      b0_sum += i0; b1_sum += i1
  \<close>
\<close>

fun wf1_loop ::
  "(string \<times> real) list \<Rightarrow> yields \<Rightarrow> yields \<Rightarrow> (string \<times> string) list \<Rightarrow>
     (string \<times> real) list \<Rightarrow> real \<Rightarrow> real \<Rightarrow> error + ((string \<times> real) list \<times> real \<times> real)"
where
  "wf1_loop balances yields_current shifted_map [] deltas b0_sum b1_sum =
     Inr (deltas, b0_sum, b1_sum)"
| "wf1_loop balances yields_current shifted_map ((c, label) # rest) deltas b0_sum b1_sum =
     (case map_of balances label of
        None \<Rightarrow> Inl (KeyError label)
      | Some bal \<Rightarrow>
          (case yields_current c of
             None \<Rightarrow> Inl (KeyError c)
           | Some r0 \<Rightarrow>
               (case shifted_map c of
                  None \<Rightarrow> Inl (KeyError c)
                | Some r1 \<Rightarrow>
                    (let i0 = bal * r0; i1 = bal * r1
                     in wf1_loop balances yields_current shifted_map rest
                          (deltas @ [(label, round2 (i1 - i0))]) (b0_sum + i0) (b1_sum + i1)))))"

definition wf1 :: "inputs \<Rightarrow> yields \<Rightarrow> yields \<Rightarrow> error + wf_step list" where
  "wf1 inp yields_current shifted_map =
     (case wf1_loop (balances_of inp) yields_current shifted_map yield_labels [] 0 0 of
        Inl e \<Rightarrow> Inl e
      | Inr (deltas, b0_sum, b1_sum) \<Rightarrow> Inr (wf_frame deltas (b1_sum - b0_sum)))"

subsection \<open>The waterfall of corp2.py\<close>

text \<open>
  \<^verbatim>\<open>
  net_bal = {
      c: assets.loc[assets.Code==c,'Balance'].sum()
         - liabilities.loc[liabilities.Code==c,'Balance'].sum()
      for c in yield_codes }
  wf = []
  cum=0
  wf.append({'Maturity':'Baseline','Start':0,'End':0,'dNII':0})
  for c in yield_codes:
      delta = net_bal[c] * (shifts[c] - yields_current[c])
      wf.append({'Maturity':yield_labels[c],'Start':cum,'End':cum+delta,'dNII':round(delta,2)})
      cum += delta
  wf.append({'Maturity':'Total','Start':0,'End':cum,'dNII':round(cum,2)})
  \<close>
  \<^verbatim>\<open>net_bal\<close> has a key for every code of \<^verbatim>\<open>yield_codes\<close>, and the loop reads it at those
  codes only, so it is modelled as a function of the code.
\<close>

definition net_bal :: "sheet \<Rightarrow> sheet \<Rightarrow> string \<Rightarrow> real" where
  "net_bal assets liabilities c =
     sum_list (map Balance (filter (\<lambda>r. Code r = c) assets))
     - sum_list (map Balance (filter (\<lambda>r. Code r = c) liabilities))"

fun wf2_loop ::
  "(string \<Rightarrow> real) \<Rightarrow> yields \<Rightarrow> yields \<Rightarrow> string list \<Rightarrow> real \<Rightarrow>
     error + (wf_step list \<times> real)"
where
  "wf2_loop nb shifts yields_current [] cum = Inr ([], cum)"
| "wf2_loop nb shifts yields_current (c # cs) cum =
     (case shifts c of
        None \<Rightarrow> Inl (KeyError c)
      | Some s \<Rightarrow>
          (case yields_current c of
             None \<Rightarrow> Inl (KeyError c)
           | Some y \<Rightarrow>
               (let delta = nb c * (s - y)
                in case map_of yield_labels c of
                     None \<Rightarrow> Inl (KeyError c)
                   | Some label \<Rightarrow>
                       (case wf2_loop nb shifts yields_current cs (cum + delta) of
                          Inl e \<Rightarrow> Inl e
                        | Inr (steps, tot) \<Rightarrow>
                            Inr (\<lparr>Maturity = label, dNII = round2 delta,
                                  Start = cum, End = cum + delta\<rparr> # steps, tot)))))"

definition wf_corp2 :: "sheet \<Rightarrow> sheet \<Rightarrow> yields \<Rightarrow> yields \<Rightarrow> error + wf_step list" where
  "wf_corp2 assets liabilities yields_current shifts =
     (case wf2_loop (net_bal assets liabilities) shifts yields_current yield_codes 0 of
        Inl e \<Rightarrow> Inl e
      | Inr (steps, cum) \<Rightarrow>
          Inr ([\<lparr>Maturity = ''Baseline'', dNII = 0, Start = 0, End = 0\<rparr>] @ steps @
               [\<lparr>Maturity = ''Total'', dNII = round2 cum, Start = 0, End = cum\<rparr>]))"

text \<open>The running-sum chain of a step sequence: every step ends at its start plus its
  delta, and every step starts where the one before it ended.\<close>

fun running_chain :: "wf_step list \<Rightarrow> bool" where
  "running_chain [] = True"
| "running_chain [w] = (End w = Start w + dNII w)"
| "running_chain (w # v # ws) =
     (End w = Start w + dNII w \<and> Start v = End w \<and> running_chain (v # ws))"

text \<open>
  The steps that the loop of corp2.py appends for a list of unrounded deltas, read from a
  running value \<open>cum\<close>: every step starts at the running value, ends at the running value
  plus its delta, shows the delta rounded to 2 decimals, and hands its end on as the next
  running value; \<open>tot\<close> is the running value after the last step.
\<close>

fun chained_from :: "real \<Rightarrow> real list \<Rightarrow> wf_step list \<Rightarrow> real \<Rightarrow> bool" where
  "chained_from cum [] [] tot = (tot = cum)"
| "chained_from cum (d # ds) (w # ws) tot =
     (Start w = cum \<and> End w = cum + d \<and> dNII w = round2 d \<and> chained_from (cum + d) ds ws tot)"
| "chained_from cum [] (w # ws) tot = False"
| "chained_from cum (d # ds) [] tot = False"

section \<open>pandas Series\<close>

text \<open>
  A Series is the list of its (label, value) entries in index order. A value is a number
  or NaN (\<open>None\<close>). Every index that reaches the operations below is increasing and free
  of duplicates (the row labels of a frame, or the sorted group keys of a groupby).

  Arithmetic of two Series aligns them on their labels: with equal indexes the values are
  combined by position; otherwise the result is indexed by the sorted union of the labels,
  and a label that one side lacks gives NaN.
\<close>

type_synonym cell = "real option"

type_synonym 'k series = "('k \<times> cell) list"

definition cell_add :: "cell \<Rightarrow> cell \<Rightarrow> cell" where
  "cell_add a b =
     (case a of None \<Rightarrow> None | Some x \<Rightarrow> (case b of None \<Rightarrow> None | Some y \<Rightarrow> Some (x + y)))"

definition cell_sub :: "cell \<Rightarrow> cell \<Rightarrow> cell" where
  "cell_sub a b =
     (case a of None \<Rightarrow> None | Some x \<Rightarrow> (case b of None \<Rightarrow> None | Some y \<Rightarrow> Some (x - y)))"

definition series_get :: "'k series \<Rightarrow> 'k \<Rightarrow> cell" where
  "series_get s k = (case map_of s k of None \<Rightarrow> None | Some v \<Rightarrow> v)"

definition series_binop ::
  "(cell \<Rightarrow> cell \<Rightarrow> cell) \<Rightarrow> ('k::linorder) series \<Rightarrow> 'k series \<Rightarrow> 'k series" where
  "series_binop f s t =
     (if map fst s = map fst t
      then map (\<lambda>(a, b). (fst a, f (snd a) (snd b))) (zip s t)
      else map (\<lambda>k. (k, f (series_get s k) (series_get t k)))
             (sort (remdups (map fst s @ map fst t))))"

text \<open>\<^verbatim>\<open>s * x\<close> for a Series and a number.\<close>

definition series_scale :: "'k series \<Rightarrow> real \<Rightarrow> 'k series" where
  "series_scale s x = map (\<lambda>(k, v). (k, map_option (\<lambda>a. a * x) v)) s"

text \<open>\<^verbatim>\<open>s.reindex(keys)\<close>: the values at the given labels, NaN at a label the Series lacks.\<close>

definition reindex :: "'k list \<Rightarrow> 'k series \<Rightarrow> 'k series" where
  "reindex keys s = map (\<lambda>k. (k, series_get s k)) keys"

text \<open>\<^verbatim>\<open>s.fillna(v)\<close>: no NaN is left, so the result is given as plain numbers.\<close>

definition fillna :: "real \<Rightarrow> 'k series \<Rightarrow> ('k \<times> real) list" where
  "fillna v s = map (\<lambda>(k, c). (k, case c of None \<Rightarrow> v | Some x \<Rightarrow> x)) s"

text \<open>
  \<^verbatim>\<open>df.groupby(key)[col].sum()\<close> on the (key, value) pairs of the rows: the rows whose
  key is NaN are dropped, the group keys are sorted.
\<close>

definition groupby_sum :: "(('k::linorder) option \<times> real) list \<Rightarrow> 'k series" where
  "groupby_sum kvs =
     map (\<lambda>b. (b, Some (sum_list (map snd (filter (\<lambda>kv. fst kv = Some b) kvs)))))
       (sort (remdups (List.map_filter fst kvs)))"

section \<open>Gap and DV01 of corp_fin.py\<close>

text \<open>
  \<^verbatim>\<open>
  tenor_map = {'Cash': '0-3M', 'Short Borrow': '0-3M', 'Deposits': '3-12M',
               'Loans': '1-5Y', 'Bonds': '5Y+', 'Corp Bonds': '5Y+'}
  dur_map = {'0-3M': 0.25, '3-12M': 0.75, '1-5Y': 3.0, '5Y+': 7.5}
  assets['Bucket'] = assets['Type'].map(tenor_map)
  liabs ['Bucket'] = liabs ['Type'].map(tenor_map)
  gap = (
      assets.groupby('Bucket')['Balance'].sum()
      - liabs.groupby('Bucket')['Balance'].sum()
  ).reindex(dur_map.keys()).fillna(0)
  df_gap = gap.rename("Gap").reset_index()
  \<close>
  The two dicts are parameters of the model; \<open>tenor_map\<close> and \<open>dur_map\<close> are the script's.
  \<^verbatim>\<open>Series.map(dict)\<close> gives NaN for a type the dict lacks.
\<close>

definition tenor_map :: "(string \<times> string) list" where
  "tenor_map =
     [(''Cash'', ''0-3M''), (''Short Borrow'', ''0-3M''), (''Deposits'', ''3-12M''),
      (''Loans'', ''1-5Y''), (''Bonds'', ''5Y+''), (''Corp Bonds'', ''5Y+'')]"

definition dur_map :: "(string \<times> real) list" where
  "dur_map = [(''0-3M'', 0.25), (''3-12M'', 0.75), (''1-5Y'', 3), (''5Y+'', 7.5)]"

definition bucket_balances :: "(string \<times> string) list \<Rightarrow> sheet \<Rightarrow> (string option \<times> real) list" where
  "bucket_balances tm sheet = map (\<lambda>r. (map_of tm (Type r), Balance r)) sheet"

definition gap :: "(string \<times> string) list \<Rightarrow> (string \<times> real) list \<Rightarrow> sheet \<Rightarrow> sheet \<Rightarrow>
    (string \<times> real) list" where
  "gap tm dm assets liabs =
     fillna 0
       (reindex (map fst dm)
          (series_binop cell_sub
             (groupby_sum (bucket_balances tm assets))
             (groupby_sum (bucket_balances tm liabs))))"

text \<open>
  \<^verbatim>\<open>
  dv01_rows = []
  for name, bp in [('Baseline', 0.00), ('Adverse', -0.01), ('Severely Adverse', -0.025)]:
      for _, row in df_gap.iterrows():
          bkt = row['Bucket']
          pos = row['Gap']
          D   = dur_map[bkt]
          # DV01 = change in PV for 1bp shift ~ position * duration * shift
          dv01 = pos * D * (bp * 100)  # *100 to convert from decimal to bp
          dv01_rows.append({'Scenario': name, 'Bucket': bkt, 'DV01': dv01})
  \<close>
  \<open>dv01_scenario\<close> is the inner loop for one scenario, \<open>dv01_rows\<close> the outer one.
\<close>

record dv01_row =
  Scenario :: string
  Bucket :: string
  DV01 :: real

definition scenarios :: "(string \<times> real) list" where
  "scenarios = [(''Baseline'', 0), (''Adverse'', - 0.01), (''Severely Adverse'', - 0.025)]"

fun dv01_scenario ::
  "(string \<times> real) list \<Rightarrow> string \<times> real \<Rightarrow> (string \<times> real) list \<Rightarrow> error + dv01_row list"
where
  "dv01_scenario dm (name, bp) [] = Inr []"
| "dv01_scenario dm (name, bp) ((bkt, pos) # rest) =
     (case map_of dm bkt of
        None \<Rightarrow> Inl (KeyError bkt)
      | Some D \<Rightarrow>
          (case dv01_scenario dm (name, bp) rest of
             Inl e \<Rightarrow> Inl e
           | Inr rows \<Rightarrow>
               Inr (\<lparr>Scenario = name, Bucket = bkt, DV01 = pos * D * (bp * 100)\<rparr> # rows)))"

fun dv01_rows ::
  "(string \<times> real) list \<Rightarrow> (string \<times> real) list \<Rightarrow> (string \<times> real) list \<Rightarrow>
     error + dv01_row list"
where
  "dv01_rows dm [] df_gap = Inr []"
| "dv01_rows dm (sc # scs) df_gap =
     (case dv01_scenario dm sc df_gap of
        Inl e \<Rightarrow> Inl e
      | Inr rows \<Rightarrow>
          (case dv01_rows dm scs df_gap of
             Inl e \<Rightarrow> Inl e
           | Inr others \<Rightarrow> Inr (rows @ others)))"

text \<open>
  As the specification words it: the gap of a bucket is the sum of the asset balances
  assigned to it minus the sum of the liability balances assigned to it, and the DV01 is
  gap times duration times the shift in basis points (a decimal shift times 10000).
\<close>

definition gap_spec :: "(string \<times> string) list \<Rightarrow> sheet \<Rightarrow> sheet \<Rightarrow> string \<Rightarrow> real" where
  "gap_spec tm assets liabs b =
     sum_list (map Balance (filter (\<lambda>r. map_of tm (Type r) = Some b) assets))
     - sum_list (map Balance (filter (\<lambda>r. map_of tm (Type r) = Some b) liabs))"

definition dv01_spec :: "real \<Rightarrow> real \<Rightarrow> real \<Rightarrow> real" where
  "dv01_spec g D shift = g * D * (shift * 10000)"


text \<open>Whether some row of a frame is mapped to the bucket \<open>b\<close>.\<close>

definition bucket_has :: "(string \<times> string) list \<Rightarrow> sheet \<Rightarrow> string \<Rightarrow> bool" where
  "bucket_has tm sheet b = list_ex (\<lambda>r. map_of tm (Type r) = Some b) sheet"

section \<open>Rate, volume and mix attribution of corp_fin.py\<close>

text \<open>
  \<^verbatim>\<open>
  bu_map = {'Loans':'Corporate','Bonds':'Corporate','Cash':'Corporate',
            'Deposits':'Retail','Short Borrow':'Corporate','Corp Bonds':'Corporate'}
  def make_sheet(b0,b1):
      return pd.DataFrame([
          {'Type':'Loans','B0':b0[0],'B1':b1[0],'Code':'GS5','BU':bu_map['Loans']},
          {'Type':'Bonds','B0':b0[1],'B1':b1[1],'Code':'GS10','BU':bu_map['Bonds']},
          {'Type':'Cash','B0':b0[2],'B1':b1[2],'Code':'GS3M','BU':bu_map['Cash']},
          {'Type':'Deposits','B0':b0[3],'B1':b1[3],'Code':'GS1','BU':bu_map['Deposits']},
          {'Type':'Short Borrow','B0':b0[4],'B1':b1[4],'Code':'GS3M','BU':bu_map['Short Borrow']},
          {'Type':'Corp Bonds','B0':b0[5],'B1':b1[5],'Code':'GS3M','BU':bu_map['Corp Bonds']}])
  \<close>
  Both arguments are always the six balances in the order loans, bonds, cash, deposits,
  borrow, corp, so they are given as \<open>inputs\<close>. A frame keeps the row labels 0 to 5, also
  after rows are filtered out.
\<close>

record pl_row =
  PL_Type :: string
  B0 :: real
  B1 :: real
  PL_Code :: string
  BU :: string

type_synonym pl_frame = "(nat \<times> pl_row) list"

definition make_sheet :: "inputs \<Rightarrow> inputs \<Rightarrow> pl_frame" where
  "make_sheet b0 b1 =
     [(0, \<lparr>PL_Type = ''Loans'', B0 = loans b0, B1 = loans b1,
            PL_Code = ''GS5'', BU = ''Corporate''\<rparr>),
      (1, \<lparr>PL_Type = ''Bonds'', B0 = bonds b0, B1 = bonds b1,
            PL_Code = ''GS10'', BU = ''Corporate''\<rparr>),
      (2, \<lparr>PL_Type = ''Cash'', B0 = cash b0, B1 = cash b1,
            PL_Code = ''GS3M'', BU = ''Corporate''\<rparr>),
      (3, \<lparr>PL_Type = ''Deposits'', B0 = deposits b0, B1 = deposits b1,
            PL_Code = ''GS1'', BU = ''Retail''\<rparr>),
      (4, \<lparr>PL_Type = ''Short Borrow'', B0 = borrow b0, B1 = borrow b1,
            PL_Code = ''GS3M'', BU = ''Corporate''\<rparr>),
      (5, \<lparr>PL_Type = ''Corp Bonds'', B0 = corp b0, B1 = corp b1,
            PL_Code = ''GS3M'', BU = ''Corporate''\<rparr>)]"

text \<open>A Python value of the attribution: a number or a Series labelled by row.\<close>

datatype pyval = Num real | Ser "nat series"

text \<open>\<^verbatim>\<open>x + y\<close> and \<^verbatim>\<open>x - y\<close>; a number is combined with every value of a Series.\<close>

fun py_add :: "pyval \<Rightarrow> pyval \<Rightarrow> pyval" where
  "py_add (Num a) (Num b) = Num (a + b)"
| "py_add (Num a) (Ser t) = Ser (map (\<lambda>(k, v). (k, cell_add (Some a) v)) t)"
| "py_add (Ser s) (Num b) = Ser (map (\<lambda>(k, v). (k, cell_add v (Some b))) s)"
| "py_add (Ser s) (Ser t) = Ser (series_binop cell_add s t)"

fun py_sub :: "pyval \<Rightarrow> pyval \<Rightarrow> pyval" where
  "py_sub (Num a) (Num b) = Num (a - b)"
| "py_sub (Num a) (Ser t) = Ser (map (\<lambda>(k, v). (k, cell_sub (Some a) v)) t)"
| "py_sub (Ser s) (Num b) = Ser (map (\<lambda>(k, v). (k, cell_sub v (Some b))) s)"
| "py_sub (Ser s) (Ser t) = Ser (series_binop cell_sub s t)"

text \<open>The builtin \<^verbatim>\<open>sum\<close>: it starts from 0 and adds the items from the left.\<close>

definition py_sum :: "pyval list \<Rightarrow> pyval" where
  "py_sum xs = foldl py_add (Num 0) xs"

text \<open>\<^verbatim>\<open>m[c]\<close> on a dict, sequencing of computations that may raise, and the items of a
  generator computed in order up to the first one that raises.\<close>

definition dict_item :: "yields \<Rightarrow> string \<Rightarrow> error + real" where
  "dict_item m c = (case m c of None \<Rightarrow> Inl (KeyError c) | Some y \<Rightarrow> Inr y)"

definition and_then :: "error + 'a \<Rightarrow> ('a \<Rightarrow> error + 'b) \<Rightarrow> error + 'b" where
  "and_then m f = (case m of Inl e \<Rightarrow> Inl e | Inr x \<Rightarrow> f x)"

fun each_item :: "('a \<Rightarrow> error + 'b) \<Rightarrow> 'a list \<Rightarrow> error + 'b list" where
  "each_item f [] = Inr []"
| "each_item f (x # xs) =
     and_then (f x) (\<lambda>y. and_then (each_item f xs) (\<lambda>ys. Inr (y # ys)))"

text \<open>\<^verbatim>\<open>r1_map[c]-r0_map[c]\<close>.\<close>

definition rate_diff :: "yields \<Rightarrow> yields \<Rightarrow> string \<Rightarrow> error + real" where
  "rate_diff r1_map r0_map c =
     and_then (dict_item r1_map c) (\<lambda>y1. and_then (dict_item r0_map c) (\<lambda>y0. Inr (y1 - y0)))"

text \<open>
  \<^verbatim>\<open>sum(fr[col]*f(c) for c in fr['Code'])\<close>: every item is the whole column \<^verbatim>\<open>fr[col]\<close>, a
  Series, times the number \<open>f c\<close>.
\<close>

definition column_terms :: "nat series \<Rightarrow> string list \<Rightarrow> (string \<Rightarrow> error + real) \<Rightarrow> error + pyval" where
  "column_terms col codes f =
     and_then (each_item f codes) (\<lambda>xs. Inr (py_sum (map (\<lambda>x. Ser (series_scale col x)) xs)))"

text \<open>
  \<^verbatim>\<open>sum((b1-b0)*f(c) for b0,b1,c in zip(f0['B0'],f1['B1'],f0['Code']))\<close>: the items are
  numbers.
\<close>

definition zipped_terms :: "pl_frame \<Rightarrow> pl_frame \<Rightarrow> (string \<Rightarrow> error + real) \<Rightarrow> error + real" where
  "zipped_terms f0 f1 f =
     and_then
       (each_item (\<lambda>(b0, b1, c). and_then (f c) (\<lambda>x. Inr ((b1 - b0) * x)))
          (zip (map (\<lambda>(i, r). B0 r) f0)
             (zip (map (\<lambda>(i, r). B1 r) f1) (map (\<lambda>(i, r). PL_Code r) f0))))
       (\<lambda>ts. Inr (sum_list ts))"

text \<open>
  \<^verbatim>\<open>
  start_df = make_sheet([loans_start,...,corp_start], [loans_start,...,corp_start])
  end_df   = make_sheet([loans_end,...,corp_end], [loans_end,...,corp_end])
  if bu_choice != "All":
      start_df = start_df[start_df['BU']==bu_choice]
      end_df   = end_df[end_df['BU']==bu_choice]
  a0 = start_df[start_df['Type'].isin(['Loans','Bonds','Cash'])]
  a1 = end_df[end_df['Type'].isin(['Loans','Bonds','Cash'])]
  l0 = start_df[start_df['Type'].isin(['Deposits','Short Borrow','Corp Bonds'])]
  l1 = end_df[end_df['Type'].isin(['Deposits','Short Borrow','Corp Bonds'])]
  rate_var   = sum(a0['B0']*(r1_map[c]-r0_map[c]) for c in a0['Code']) \
             - sum(l0['B0']*(r1_map[c]-r0_map[c]) for c in l0['Code'])
  vol_var    = sum((b1-b0)*r0_map[c] for b0,b1,c in zip(a0['B0'],a1['B1'],a0['Code'])) \
             - sum((b1-b0)*r0_map[c] for b0,b1,c in zip(l0['B0'],l1['B1'],l0['Code']))
  mix_var    = sum((b1-b0)*(r1_map[c]-r0_map[c]) for b0,b1,c in zip(a0['B0'],a1['B1'],a0['Code'])) \
             - sum((b1-b0)*(r1_map[c]-r0_map[c]) for b0,b1,c in zip(l0['B0'],l1['B1'],l0['Code']))
  nii0 = sum(a0['B0']*r0_map[c] for c in a0['Code']) - sum(l0['B0']*r0_map[c] for c in l0['Code'])
  nii1 = sum(a1['B1']*r1_map[c] for c in a1['Code']) - sum(l1['B1']*r1_map[c] for c in l1['Code'])
  \<close>
\<close>

record pl_explain =
  nii0 :: pyval
  rate_var :: pyval
  vol_var :: real
  mix_var :: real
  nii1 :: pyval

definition by_bu :: "string \<Rightarrow> pl_frame \<Rightarrow> pl_frame" where
  "by_bu bu_choice df =
     (if bu_choice \<noteq> ''All'' then filter (\<lambda>(i, r). BU r = bu_choice) df else df)"

definition isin :: "string list \<Rightarrow> pl_frame \<Rightarrow> pl_frame" where
  "isin types df = filter (\<lambda>(i, r). PL_Type r \<in> set types) df"

definition col_B0 :: "pl_frame \<Rightarrow> nat series" where
  "col_B0 df = map (\<lambda>(i, r). (i, Some (B0 r))) df"

definition col_B1 :: "pl_frame \<Rightarrow> nat series" where
  "col_B1 df = map (\<lambda>(i, r). (i, Some (B1 r))) df"

definition col_Code :: "pl_frame \<Rightarrow> string list" where
  "col_Code df = map (\<lambda>(i, r). PL_Code r) df"

definition attribution ::
  "inputs \<Rightarrow> inputs \<Rightarrow> string \<Rightarrow> yields \<Rightarrow> yields \<Rightarrow> error + pl_explain" where
  "attribution start_bal end_bal bu_choice r0_map r1_map =
     (let start_df = by_bu bu_choice (make_sheet start_bal start_bal);
          end_df = by_bu bu_choice (make_sheet end_bal end_bal);
          a0 = isin [''Loans'', ''Bonds'', ''Cash''] start_df;
          a1 = isin [''Loans'', ''Bonds'', ''Cash''] end_df;
          l0 = isin [''Deposits'', ''Short Borrow'', ''Corp Bonds''] start_df;
          l1 = isin [''Deposits'', ''Short Borrow'', ''Corp Bonds''] end_df
      in
      and_then (column_terms (col_B0 a0) (col_Code a0) (rate_diff r1_map r0_map)) (\<lambda>rate_a.
      and_then (column_terms (col_B0 l0) (col_Code l0) (rate_diff r1_map r0_map)) (\<lambda>rate_l.
      and_then (zipped_terms a0 a1 (dict_item r0_map)) (\<lambda>vol_a.
      and_then (zipped_terms l0 l1 (dict_item r0_map)) (\<lambda>vol_l.
      and_then (zipped_terms a0 a1 (rate_diff r1_map r0_map)) (\<lambda>mix_a.
      and_then (zipped_terms l0 l1 (rate_diff r1_map r0_map)) (\<lambda>mix_l.
      and_then (column_terms (col_B0 a0) (col_Code a0) (dict_item r0_map)) (\<lambda>nii0_a.
      and_then (column_terms (col_B0 l0) (col_Code l0) (dict_item r0_map)) (\<lambda>nii0_l.
      and_then (column_terms (col_B1 a1) (col_Code a1) (dict_item r1_map)) (\<lambda>nii1_a.
      and_then (column_terms (col_B1 l1) (col_Code l1) (dict_item r1_map)) (\<lambda>nii1_l.
        Inr \<lparr>nii0 = py_sub nii0_a nii0_l,
             rate_var = py_sub rate_a rate_l,
             vol_var = vol_a - vol_l,
             mix_var = mix_a - mix_l,
             nii1 = py_sub nii1_a nii1_l\<rparr>)))))))))))"


section \<open>Concrete inputs\<close>

text \<open>
  The sidebar's default balances, the default starting balances of the attribution (its
  default ending balances are the sidebar's defaults again), and a yield map with a value
  for each of the four codes, as \<^verbatim>\<open>get_latest_yields\<close> returns one.
\<close>

definition default_inputs :: inputs where
  "default_inputs =
     \<lparr>loans = 120, bonds = 80, cash = 40, deposits = 130, borrow = 40, corp = 20\<rparr>"

definition default_start :: inputs where
  "default_start =
     \<lparr>loans = 100, bonds = 70, cash = 30, deposits = 110, borrow = 35, corp = 15\<rparr>"

definition sample_yields :: yields where
  "sample_yields = [''GS3M'' \<mapsto> 0.02, ''GS1'' \<mapsto> 0.03, ''GS5'' \<mapsto> 0.04, ''GS10'' \<mapsto> 0.05]"

definition sample_yields_end :: yields where
  "sample_yields_end = [''GS3M'' \<mapsto> 0.03, ''GS1'' \<mapsto> 0.04, ''GS5'' \<mapsto> 0.05, ''GS10'' \<mapsto> 0.06]"

text \<open>The ledger of the specification's worked example: loans of 120 at the 5Y rate
  0.04 and deposits of 130 at the 1Y rate 0.03, every other balance 0.\<close>

definition example_inputs :: inputs where
  "example_inputs =
     \<lparr>loans = 120, bonds = 0, cash = 0, deposits = 130, borrow = 0, corp = 0\<rparr>"

text \<open>The frames of corp2.py at its default balances, but with deposits of 131, and the
  yields of a custom shift of 25 basis points.\<close>

definition corp2_assets :: sheet where
  "corp2_assets =
     [\<lparr>Type = ''Cash'', Balance = 40, Code = ''GS3M''\<rparr>,
      \<lparr>Type = ''Loans'', Balance = 120, Code = ''GS5''\<rparr>,
      \<lparr>Type = ''Bonds'', Balance = 80, Code = ''GS10''\<rparr>]"

definition corp2_liabilities :: sheet where
  "corp2_liabilities = [\<lparr>Type = ''Deposits'', Balance = 131, Code = ''GS1''\<rparr>]"

definition shifts_25bp :: yields where
  "shifts_25bp =
     [''GS3M'' \<mapsto> 0.0225, ''GS1'' \<mapsto> 0.0325, ''GS5'' \<mapsto> 0.0425, ''GS10'' \<mapsto> 0.0525]"


text \<open>A yield map that lacks the code of the loans.\<close>

definition yields_without_GS5 :: yields where
  "yields_without_GS5 = [''GS3M'' \<mapsto> 0.02, ''GS1'' \<mapsto> 0.03, ''GS10'' \<mapsto> 0.05]"


section \<open>Linearity of the NII in the balances\<close>

lemma column_sum_calculate_scale:
  "column_sum (calculate (scale_sheet k sheet) ylds field)
     = k * column_sum (calculate sheet ylds field)"
  by (induction sheet)
     (simp_all add: column_sum_def calculate_def scale_sheet_def calculate_row_def
        Let_def algebra_simps)

text \<open>
  C7. Scaling every position balance of the ledger by \<open>k\<close>, with the yield map held fixed,
  scales the total income, the total expense and the resulting NII by \<open>k\<close>.
\<close>

theorem compute_ii_linear_in_balances:
  "nii (compute_ii (scale_sheet k assets) (scale_sheet k liabilities) ylds)
     = k * nii (compute_ii assets liabilities ylds)
   \<and> income (compute_ii (scale_sheet k assets) (scale_sheet k liabilities) ylds)
     = k * income (compute_ii assets liabilities ylds)
   \<and> expense (compute_ii (scale_sheet k assets) (scale_sheet k liabilities) ylds)
     = k * expense (compute_ii assets liabilities ylds)"
  by (simp add: compute_ii_def Let_def column_sum_calculate_scale algebra_simps)

section \<open>The gap index and the DV01 of a zero shift\<close>

lemma fst_fillna: "map fst (fillna v s) = map fst s"
  by (induction s) (auto simp: fillna_def)

lemma fst_reindex: "map fst (reindex keys s) = keys"
  by (induction keys) (auto simp: reindex_def)

lemma fst_gap: "map fst (gap tm dm assets liabs) = map fst dm"
  by (simp add: gap_def fst_fillna fst_reindex)

text \<open>
  C9. For every ledger the gap result is indexed by exactly the four buckets 0-3M, 3-12M,
  1-5Y and 5Y+, in that order, whatever buckets the positions fall into.
\<close>

theorem gap_index_is_the_four_buckets:
  "map fst (gap tenor_map dur_map assets liabs) = [''0-3M'', ''3-12M'', ''1-5Y'', ''5Y+'']"
  by (simp add: fst_gap) (simp add: dur_map_def)

lemma dv01_scenario_zero:
  "set (map fst g) \<subseteq> set (map fst dm) \<Longrightarrow>
   dv01_scenario dm (name, 0) g
     = Inr (map (\<lambda>b. \<lparr>Scenario = name, Bucket = b, DV01 = 0\<rparr>) (map fst g))"
proof (induction g)
  case Nil
  then show ?case by simp
next
  case (Cons p g)
  obtain bkt pos where p: "p = (bkt, pos)" by (cases p)
  from Cons.prems p have "bkt \<in> fst ` set dm" by simp
  then obtain D where "map_of dm bkt = Some D"
    by (metis map_of_eq_None_iff not_Some_eq)
  moreover from Cons have "dv01_scenario dm (name, 0) g
     = Inr (map (\<lambda>b. \<lparr>Scenario = name, Bucket = b, DV01 = 0\<rparr>) (map fst g))" by simp
  ultimately show ?case using p by simp
qed

lemma dv01_scenario_returns:
  "set (map fst g) \<subseteq> set (map fst dm) \<Longrightarrow>
   \<exists>rows. dv01_scenario dm sc g = Inr rows \<and> length rows = length g"
proof (induction g)
  case Nil
  then show ?case by (cases sc) simp
next
  case (Cons p g)
  obtain bkt pos where p: "p = (bkt, pos)" by (cases p)
  obtain name bp where sc: "sc = (name, bp)" by (cases sc)
  from Cons.prems p have "bkt \<in> fst ` set dm" by simp
  then obtain D where "map_of dm bkt = Some D"
    by (metis map_of_eq_None_iff not_Some_eq)
  moreover from Cons obtain rows where "dv01_scenario dm sc g = Inr rows" "length rows = length g"
    by auto
  ultimately show ?case using p sc by simp
qed

lemma dv01_rows_returns:
  "set (map fst g) \<subseteq> set (map fst dm) \<Longrightarrow>
   \<exists>rows. dv01_rows dm scs g = Inr rows \<and> length rows = length scs * length g"
proof (induction scs)
  case Nil
  then show ?case by simp
next
  case (Cons sc scs)
  from Cons obtain others where o: "dv01_rows dm scs g = Inr others" "length others = length scs * length g"
    by auto
  from dv01_scenario_returns[OF Cons.prems, of sc] obtain rows
    where r: "dv01_scenario dm sc g = Inr rows" "length rows = length g" by auto
  from o r show ?case by simp
qed

lemma dv01_rows_append:
  "dv01_rows dm xs g = Inr a \<Longrightarrow> dv01_rows dm ys g = Inr b \<Longrightarrow>
   dv01_rows dm (xs @ ys) g = Inr (a @ b)"
proof (induction xs arbitrary: a)
  case Nil
  then show ?case by simp
next
  case (Cons x xs)
  then show ?case by (auto split: sum.splits)
qed

text \<open>
  C10. For every ledger, bucket map and duration map, the inner loop of the DV01 table
  returns, for a scenario whose shift is 0, one row per bucket of the duration map with
  DV01 exactly 0; and in the table of any scenario list these rows stand at that
  scenario's place.
\<close>

theorem dv01_of_zero_shift_is_zero:
  "dv01_scenario dm (name, 0) (gap tm dm assets liabs)
     = Inr (map (\<lambda>b. \<lparr>Scenario = name, Bucket = b, DV01 = 0\<rparr>) (map fst dm))
   \<and> (\<exists>before after.
         dv01_rows dm (pre @ (name, 0) # post) (gap tm dm assets liabs)
           = Inr (before @ map (\<lambda>b. \<lparr>Scenario = name, Bucket = b, DV01 = 0\<rparr>) (map fst dm) @ after)
         \<and> length before = length pre * length dm)"
proof -
  let ?g = "gap tm dm assets liabs"
  let ?zero = "map (\<lambda>b. \<lparr>Scenario = name, Bucket = b, DV01 = 0\<rparr>) (map fst dm)"
  have keys: "set (map fst ?g) \<subseteq> set (map fst dm)" by (simp add: fst_gap)
  have len: "length ?g = length dm" using fst_gap[of tm dm assets liabs] by (metis length_map)
  have z: "dv01_scenario dm (name, 0) ?g = Inr ?zero"
    using dv01_scenario_zero[OF keys, of name] by (simp add: fst_gap)
  obtain before where b: "dv01_rows dm pre ?g = Inr before" "length before = length pre * length ?g"
    using dv01_rows_returns[OF keys, of pre] by auto
  obtain after where a: "dv01_rows dm post ?g = Inr after"
    using dv01_rows_returns[OF keys, of post] by auto
  have "dv01_rows dm ((name, 0) # post) ?g = Inr (?zero @ after)"
    using z a by simp
  from dv01_rows_append[OF b(1) this] b(2) len z show ?thesis by auto
qed

section \<open>A uniform shift\<close>

lemma calc_total:
  "set (map Code sheet) \<subseteq> dom ym \<Longrightarrow> calc sheet ym fld = Inr (calculate sheet ym fld)"
proof (induction sheet)
  case Nil
  then show ?case by (simp add: calculate_def)
next
  case (Cons r rs)
  then obtain y where "ym (Code r) = Some y" by auto
  with Cons show ?case
    by (simp add: calculate_def calculate_row_def dict_get_def)
qed

lemma calc_first_missing:
  "List.find (\<lambda>r. ym (Code r) = None) sheet = Some r0 \<Longrightarrow>
   calc sheet ym fld = Inl (KeyError (Code r0))"
proof (induction sheet)
  case Nil
  then show ?case by simp
next
  case (Cons r rs)
  then show ?case by (cases "ym (Code r)") (auto split: if_splits)
qed

lemma shifted_over_total:
  "set cs \<subseteq> dom yc \<Longrightarrow> set cs \<subseteq> dom sm \<Longrightarrow>
   \<exists>m. shifted_over cs yc sm = Inr m \<and> dom m = set cs
     \<and> (\<forall>c\<in>set cs. \<forall>y s. yc c = Some y \<longrightarrow> sm c = Some s \<longrightarrow> m c = Some (y + s))"
proof (induction cs)
  case Nil
  then show ?case by simp
next
  case (Cons c cs)
  then obtain m where m: "shifted_over cs yc sm = Inr m" "dom m = set cs"
    "\<forall>c\<in>set cs. \<forall>y s. yc c = Some y \<longrightarrow> sm c = Some s \<longrightarrow> m c = Some (y + s)"
    by auto
  from Cons.prems obtain y s where ys: "yc c = Some y" "sm c = Some s" by auto
  from m ys show ?case by auto
qed

lemma flat_shifts_at: "c \<in> set yield_codes \<Longrightarrow> flat_shifts s c = Some s"
  by (auto simp: flat_shifts_def yield_codes_def)

lemma dom_flat_shifts: "dom (flat_shifts s) = set yield_codes"
  by (auto simp: flat_shifts_def yield_codes_def split: if_splits)

lemma column_sum_calculate_shift:
  assumes "set (map Code sheet) \<subseteq> set cs"
    and "\<forall>c\<in>set cs. \<exists>y. yc c = Some y \<and> m c = Some (y + s)"
  shows "column_sum (calculate sheet m fld)
           = column_sum (calculate sheet yc fld) + s * total_balance sheet"
  using assms(1)
proof (induction sheet)
  case Nil
  then show ?case by (simp add: column_sum_def calculate_def total_balance_def)
next
  case (Cons r rs)
  then have "Code r \<in> set cs" by simp
  with assms(2) obtain y where "yc (Code r) = Some y" "m (Code r) = Some (y + s)" by auto
  moreover from Cons have "column_sum (calculate rs m fld)
           = column_sum (calculate rs yc fld) + s * total_balance rs" by simp
  ultimately show ?case
    by (simp add: column_sum_def calculate_def total_balance_def calculate_row_def dict_get_def
        algebra_simps)
qed

text \<open>
  C8. When every position is priced off one of the four codes and the current yields have
  all four, the NII under a shift \<open>s\<close> applied to every code is the unshifted NII plus
  \<open>s\<close> times (total assets minus total liabilities); both computations return.
\<close>

theorem uniform_shift_moves_nii_by_net_balance:
  assumes "set (map Code assets) \<subseteq> set yield_codes"
    and "set (map Code liabs) \<subseteq> set yield_codes"
    and "set yield_codes \<subseteq> dom yields_current"
  shows "\<exists>base sh.
           compute_nii assets liabs yields_current = Inr base
         \<and> shifted yields_current (flat_shifts s) = Inr sh
         \<and> compute_nii assets liabs sh
             = Inr (base + s * (total_balance assets - total_balance liabs))"
proof -
  have "set yield_codes \<subseteq> dom (flat_shifts s)" by (simp add: dom_flat_shifts)
  from shifted_over_total[OF assms(3) this] obtain sh where
    sh: "shifted yields_current (flat_shifts s) = Inr sh" "dom sh = set yield_codes"
    and at: "\<forall>c\<in>set yield_codes. \<forall>y t. yields_current c = Some y \<longrightarrow> flat_shifts s c = Some t
          \<longrightarrow> sh c = Some (y + t)"
    unfolding shifted_def by blast
  have pt: "\<forall>c\<in>set yield_codes. \<exists>y. yields_current c = Some y \<and> sh c = Some (y + s)"
  proof
    fix c assume c: "c \<in> set yield_codes"
    with assms(3) obtain y where y: "yields_current c = Some y" by auto
    with at c flat_shifts_at[OF c, of s] show "\<exists>y. yields_current c = Some y \<and> sh c = Some (y + s)"
      by auto
  qed
  have a0: "calc assets yields_current ''Income'' = Inr (calculate assets yields_current ''Income'')"
    using assms(1,3) by (intro calc_total) auto
  have l0: "calc liabs yields_current ''Expense'' = Inr (calculate liabs yields_current ''Expense'')"
    using assms(2,3) by (intro calc_total) auto
  have a1: "calc assets sh ''Income'' = Inr (calculate assets sh ''Income'')"
    using assms(1) sh(2) by (intro calc_total) auto
  have l1: "calc liabs sh ''Expense'' = Inr (calculate liabs sh ''Expense'')"
    using assms(2) sh(2) by (intro calc_total) auto
  let ?base = "column_sum (calculate assets yields_current ''Income'')
                 - column_sum (calculate liabs yields_current ''Expense'')"
  have b: "compute_nii assets liabs yields_current = Inr ?base"
    by (simp add: compute_nii_def a0 l0)
  have "compute_nii assets liabs sh
          = Inr (column_sum (calculate assets sh ''Income'') - column_sum (calculate liabs sh ''Expense''))"
    by (simp add: compute_nii_def a1 l1)
  also have "\<dots> = Inr (?base + s * (total_balance assets - total_balance liabs))"
    using column_sum_calculate_shift[OF assms(1) pt, of "''Income''"]
      column_sum_calculate_shift[OF assms(2) pt, of "''Expense''"]
    by (simp add: algebra_simps)
  finally show ?thesis using b sh(1) by blast
qed

theorem uniform_shift_moves_nii_by_net_balance_witness:
  "\<exists>base sh.
     compute_nii (assets_of default_inputs) (liabs_of default_inputs) sample_yields = Inr base
   \<and> shifted sample_yields (flat_shifts (- 0.01)) = Inr sh
   \<and> compute_nii (assets_of default_inputs) (liabs_of default_inputs) sh
       = Inr (base + (- 0.01) * (total_balance (assets_of default_inputs)
                                 - total_balance (liabs_of default_inputs)))"
proof -
  have a: "set (map Code (assets_of default_inputs)) \<subseteq> set yield_codes"
    by (simp add: assets_of_def yield_codes_def)
  have l: "set (map Code (liabs_of default_inputs)) \<subseteq> set yield_codes"
    by (simp add: liabs_of_def yield_codes_def)
  have y: "set yield_codes \<subseteq> dom sample_yields"
    by (simp add: yield_codes_def sample_yields_def)
  show ?thesis
    by (rule uniform_shift_moves_nii_by_net_balance [OF a l y])
qed

section \<open>A code absent from the yield map\<close>

lemma column_sum_calculate_known:
  "column_sum (calculate sheet ylds field)
     = column_sum (calculate (filter (\<lambda>r. Code r \<in> dom ylds) sheet) ylds field)"
  by (induction sheet)
     (auto simp: column_sum_def calculate_def calculate_row_def dict_get_def dom_def)

lemma find_missing_append:
  "List.find P (xs @ ys) = (case List.find P xs of None \<Rightarrow> List.find P ys | Some x \<Rightarrow> Some x)"
  by (induction xs) auto

lemma find_none_codes:
  "List.find (\<lambda>r. ym (Code r) = None) sheet = None \<Longrightarrow> set (map Code sheet) \<subseteq> dom ym"
  by (induction sheet) (auto split: if_splits)

lemma compute_nii_first_missing:
  assumes "List.find (\<lambda>r. ym (Code r) = None) (assets @ liabs) = Some r0"
  shows "compute_nii assets liabs ym = Inl (KeyError (Code r0))"
proof (cases "List.find (\<lambda>r. ym (Code r) = None) assets")
  case None
  with assms have l: "List.find (\<lambda>r. ym (Code r) = None) liabs = Some r0"
    by (simp add: find_missing_append)
  from None have "calc assets ym ''Income'' = Inr (calculate assets ym ''Income'')"
    by (intro calc_total find_none_codes)
  with calc_first_missing[OF l] show ?thesis by (simp add: compute_nii_def)
next
  case (Some a)
  with assms have "a = r0" by (simp add: find_missing_append)
  with Some calc_first_missing[of ym assets r0] show ?thesis by (simp add: compute_nii_def)
qed

text \<open>
  C2 (as amended). When a position's code is absent from the yield map, \<open>calculate\<close>
  (corp.py, corp2.py) still returns a row for every position, prices the absent code at
  rate 0 and amount 0, and the NII it gives is the NII of the positions whose code the map
  has; \<open>calc\<close> (corp3.py, corp_fin.py) returns no frame, and the NII computation built on it
  fails with the KeyError of the first position, assets before liabilities, whose code is
  absent.
\<close>

theorem missing_code_zero_in_calculate_keyerror_in_calc:
  assumes "r \<in> set assets \<union> set liabilities" and "ylds (Code r) = None"
  shows "Rate (calculate_row ylds field r) = 0 \<and> Amount (calculate_row ylds field r) = 0
       \<and> length (calculate assets ylds ''Income'') = length assets
       \<and> length (calculate liabilities ylds ''Expense'') = length liabilities
       \<and> compute_ii assets liabilities ylds
           = compute_ii (filter (\<lambda>r. Code r \<in> dom ylds) assets)
               (filter (\<lambda>r. Code r \<in> dom ylds) liabilities) ylds
       \<and> (\<exists>r0. List.find (\<lambda>r. ylds (Code r) = None) (assets @ liabilities) = Some r0
              \<and> compute_nii assets liabilities ylds = Inl (KeyError (Code r0)))"
proof -
  have z: "Rate (calculate_row ylds field r) = 0 \<and> Amount (calculate_row ylds field r) = 0"
    using assms(2) by (simp add: calculate_row_def dict_get_def)
  have ii: "compute_ii assets liabilities ylds
           = compute_ii (filter (\<lambda>r. Code r \<in> dom ylds) assets)
               (filter (\<lambda>r. Code r \<in> dom ylds) liabilities) ylds"
    unfolding compute_ii_def
    using column_sum_calculate_known[of assets ylds "''Income''"]
      column_sum_calculate_known[of liabilities ylds "''Expense''"]
    by simp
  from assms have "\<exists>x\<in>set (assets @ liabilities). ylds (Code x) = None" by auto
  then obtain r0 where "List.find (\<lambda>r. ylds (Code r) = None) (assets @ liabilities) = Some r0"
    by (cases "List.find (\<lambda>r. ylds (Code r) = None) (assets @ liabilities)")
       (auto simp: find_None_iff)
  with compute_nii_first_missing[OF this] z ii show ?thesis
    by (simp add: calculate_def)
qed

theorem missing_code_zero_in_calculate_keyerror_in_calc_witness:
  "Amount (calculate_row yields_without_GS5 ''Income''
             \<lparr>Type = ''Loans'', Balance = 120, Code = ''GS5''\<rparr>) = 0
   \<and> compute_ii (assets_of default_inputs) (liabs_of default_inputs) yields_without_GS5
       = compute_ii
           [\<lparr>Type = ''Bonds'', Balance = 80, Code = ''GS10''\<rparr>,
            \<lparr>Type = ''Cash'', Balance = 40, Code = ''GS3M''\<rparr>]
           (liabs_of default_inputs) yields_without_GS5
   \<and> compute_nii (assets_of default_inputs) (liabs_of default_inputs) yields_without_GS5
       = Inl (KeyError ''GS5'')"
proof -
  have m: "\<lparr>Type = ''Loans'', Balance = 120, Code = ''GS5''\<rparr>
             \<in> set (assets_of default_inputs) \<union> set (liabs_of default_inputs)"
    by (simp add: assets_of_def default_inputs_def)
  have n: "yields_without_GS5 (Code \<lparr>Type = ''Loans'', Balance = 120, Code = ''GS5''\<rparr>) = None"
    by (simp add: yields_without_GS5_def)
  show ?thesis
    using missing_code_zero_in_calculate_keyerror_in_calc
      [where r = "\<lparr>Type = ''Loans'', Balance = 120, Code = ''GS5''\<rparr>"
         and assets = "assets_of default_inputs" and liabilities = "liabs_of default_inputs"
         and ylds = yields_without_GS5 and field = "''Income''", OF m n]
    by (simp add: assets_of_def liabs_of_def default_inputs_def yields_without_GS5_def)
qed

text \<open>
  The claim as stated fails on \<open>calculate\<close>: with the loans' code absent from the map, the
  frame and the NII are returned, the loans priced at 0.
\<close>

theorem missing_code_is_not_an_error_counterexample:
  "yields_without_GS5 ''GS5'' = None
   \<and> calculate (assets_of default_inputs) yields_without_GS5 ''Income''
       = [\<lparr>Type = ''Loans'', Balance = 120, Code = ''GS5'',
            Rate = 0, Field = ''Income'', Amount = 0\<rparr>,
          \<lparr>Type = ''Bonds'', Balance = 80, Code = ''GS10'',
            Rate = 5, Field = ''Income'', Amount = 4\<rparr>,
          \<lparr>Type = ''Cash'', Balance = 40, Code = ''GS3M'',
            Rate = 2, Field = ''Income'', Amount = 4 / 5\<rparr>]
   \<and> compute_ii (assets_of default_inputs) (liabs_of default_inputs) yields_without_GS5
       = \<lparr>income = 24 / 5, expense = 51 / 10, nii = - (3 / 10)\<rparr>"
  by (simp add: yields_without_GS5_def calculate_def calculate_row_def dict_get_def
      assets_of_def liabs_of_def default_inputs_def compute_ii_def column_sum_def)

section \<open>The running-sum chain of the waterfalls\<close>

lemma round2_zero: "round2 0 = 0"
  by (simp add: round2_def round_half_even_def)

lemma running_chain_index:
  "running_chain ws \<longleftrightarrow>
     (\<forall>i<length ws. End (ws ! i) = Start (ws ! i) + dNII (ws ! i))
   \<and> (\<forall>i. Suc i < length ws \<longrightarrow> Start (ws ! Suc i) = End (ws ! i))"
proof (induction ws rule: running_chain.induct)
  case 1
  then show ?case by simp
next
  case (2 w)
  then show ?case by simp
next
  case (3 w v ws)
  have a: "(\<forall>i<length (w # v # ws). End ((w # v # ws) ! i) = Start ((w # v # ws) ! i) + dNII ((w # v # ws) ! i))
        \<longleftrightarrow> End w = Start w + dNII w
          \<and> (\<forall>i<length (v # ws). End ((v # ws) ! i) = Start ((v # ws) ! i) + dNII ((v # ws) ! i))"
    by (simp add: All_less_Suc2)
  have b: "(\<forall>i. Suc i < length (w # v # ws) \<longrightarrow> Start ((w # v # ws) ! Suc i) = End ((w # v # ws) ! i))
        \<longleftrightarrow> Start v = End w
          \<and> (\<forall>i. Suc i < length (v # ws) \<longrightarrow> Start ((v # ws) ! Suc i) = End ((v # ws) ! i))"
    (is "?L \<longleftrightarrow> ?R")
  proof
    assume l: ?L
    have "Start v = End w" using l[rule_format, of 0] by simp
    moreover have "\<forall>i. Suc i < length (v # ws) \<longrightarrow> Start ((v # ws) ! Suc i) = End ((v # ws) ! i)"
    proof (intro allI impI)
      fix i assume "Suc i < length (v # ws)"
      then show "Start ((v # ws) ! Suc i) = End ((v # ws) ! i)"
        using l[rule_format, of "Suc i"] by simp
    qed
    ultimately show ?R by simp
  next
    assume r: ?R
    show ?L
    proof (intro allI impI)
      fix i assume i: "Suc i < length (w # v # ws)"
      show "Start ((w # v # ws) ! Suc i) = End ((w # v # ws) ! i)"
      proof (cases i)
        case 0
        with r show ?thesis by simp
      next
        case (Suc j)
        with i r show ?thesis by simp
      qed
    qed
  qed
  from 3 show ?case unfolding a b by simp blast
qed

lemma butlast_cumsum_Cons:
  "ds \<noteq> [] \<Longrightarrow> butlast (cumsum acc (d # ds)) = (acc + d) # butlast (cumsum (acc + d) ds)"
  by (cases ds) simp_all

lemma length_cumsum: "length (cumsum acc ds) = length ds"
  by (induction ds arbitrary: acc) simp_all

lemma cumsum_eq_Nil: "cumsum acc ds = [] \<longleftrightarrow> ds = []"
  by (cases ds) simp_all

lemma running_chain_starts:
  "rows \<noteq> [] \<Longrightarrow>
   running_chain
     (map (\<lambda>((m, d), s). \<lparr>Maturity = m, dNII = d, Start = s, End = s + d\<rparr>)
        (zip rows (acc # butlast (cumsum acc (map snd rows)))))"
proof (induction rows arbitrary: acc)
  case Nil
  then show ?case by simp
next
  case (Cons r rows)
  obtain m d where r: "r = (m, d)" by (cases r)
  show ?case
  proof (cases rows)
    case Nil
    with r show ?thesis by simp
  next
    case (Cons r' rows')
    obtain m' d' where r': "r' = (m', d')" by (cases r')
    have ne: "rows \<noteq> []" using Cons by simp
    have "running_chain
       (map (\<lambda>((m, d), s). \<lparr>Maturity = m, dNII = d, Start = s, End = s + d\<rparr>)
          (zip rows ((acc + d) # butlast (cumsum (acc + d) (map snd rows)))))"
      using Cons.IH[OF ne] .
    then show ?thesis
      using r r' Cons by (simp add: butlast_cumsum_Cons)
  qed
qed

lemma wf_frame_unfold:
  "wf_frame deltas tot =
     map (\<lambda>((m, d), s). \<lparr>Maturity = m, dNII = d, Start = s, End = s + d\<rparr>)
       (zip ((''Baseline'', 0) # deltas @ [(''Total'', round2 tot)])
          (0 # butlast (cumsum 0 (map snd ((''Baseline'', 0) # deltas @ [(''Total'', round2 tot)])))))"
  by (simp add: wf_frame_def shift_fill_def Let_def cumsum_eq_Nil)

lemma running_chain_wf_frame: "running_chain (wf_frame deltas tot)"
  unfolding wf_frame_unfold by (rule running_chain_starts) simp

lemma length_wf_frame: "length (wf_frame deltas tot) = length deltas + 2"
  by (simp add: wf_frame_unfold length_cumsum cumsum_eq_Nil)

lemma hd_wf_frame:
  "hd (wf_frame deltas tot) = \<lparr>Maturity = ''Baseline'', dNII = 0, Start = 0, End = 0\<rparr>"
  by (simp add: wf_frame_unfold)

lemma last_wf_frame:
  "Maturity (last (wf_frame deltas tot)) = ''Total'' \<and> dNII (last (wf_frame deltas tot)) = round2 tot"
proof -
  let ?rows = "(''Baseline'', 0) # deltas @ [(''Total'', round2 tot)]"
  let ?starts = "0 # butlast (cumsum 0 (map snd ?rows))"
  have len: "length ?starts = length ?rows" by (simp add: length_cumsum cumsum_eq_Nil)
  have "last (zip ?rows ?starts) = (last ?rows, last ?starts)"
    using len by (intro last_zip) auto
  then have "last (wf_frame deltas tot)
      = (\<lambda>((m, d), s). \<lparr>Maturity = m, dNII = d, Start = s, End = s + d\<rparr>) (last ?rows, last ?starts)"
    unfolding wf_frame_unfold by (subst last_map) (auto simp: length_cumsum)
  then show ?thesis by simp
qed

lemma yield_label_of_code: "c \<in> set yield_codes \<Longrightarrow> \<exists>label. map_of yield_labels c = Some label"
  by (auto simp: yield_codes_def yield_labels_def)

text \<open>
  The claim as stated fails on the waterfall of corp2.py: at its default balances with
  deposits of 131 and a shift of 25 basis points, the 1Y step ends at its start plus
  -0.3275 but shows the delta -0.33, and the Total step starts at 0 although the 10Y step
  ended at 0.2725.
\<close>

theorem corp2_waterfall_is_not_a_running_chain_counterexample:
  "wf_corp2 corp2_assets corp2_liabilities sample_yields shifts_25bp
     = Inr [\<lparr>Maturity = ''Baseline'', dNII = 0, Start = 0, End = 0\<rparr>,
            \<lparr>Maturity = ''3M'', dNII = 1 / 10, Start = 0, End = 1 / 10\<rparr>,
            \<lparr>Maturity = ''1Y'', dNII = - (33 / 100), Start = 1 / 10, End = - (91 / 400)\<rparr>,
            \<lparr>Maturity = ''5Y'', dNII = 3 / 10, Start = - (91 / 400), End = 29 / 400\<rparr>,
            \<lparr>Maturity = ''10Y'', dNII = 1 / 5, Start = 29 / 400, End = 109 / 400\<rparr>,
            \<lparr>Maturity = ''Total'', dNII = 27 / 100, Start = 0, End = 109 / 400\<rparr>]
   \<and> \<not> running_chain
         [\<lparr>Maturity = ''Baseline'', dNII = 0, Start = 0, End = 0\<rparr>,
          \<lparr>Maturity = ''3M'', dNII = 1 / 10, Start = 0, End = 1 / 10\<rparr>,
          \<lparr>Maturity = ''1Y'', dNII = - (33 / 100), Start = 1 / 10, End = - (91 / 400)\<rparr>,
          \<lparr>Maturity = ''5Y'', dNII = 3 / 10, Start = - (91 / 400), End = 29 / 400\<rparr>,
          \<lparr>Maturity = ''10Y'', dNII = 1 / 5, Start = 29 / 400, End = 109 / 400\<rparr>,
          \<lparr>Maturity = ''Total'', dNII = 27 / 100, Start = 0, End = 109 / 400\<rparr>]"
  by (simp add: wf_corp2_def corp2_assets_def corp2_liabilities_def sample_yields_def
      shifts_25bp_def yield_codes_def yield_labels_def net_bal_def round2_def
      round_half_even_def Let_def)

section \<open>What the gap and the DV01 table compute\<close>

text \<open>
  The gap of a bucket is the difference of the two sums only when both frames have a row
  in the bucket. A bucket with rows in one frame only gets NaN from the aligned
  subtraction and then 0 from \<^verbatim>\<open>fillna(0)\<close>, like a bucket with no rows at all.
\<close>

lemma series_get_zip:
  "map fst s = map fst t \<Longrightarrow> distinct (map fst s) \<Longrightarrow>
   series_get (map (\<lambda>(a, b). (fst a, f (snd a) (snd b))) (zip s t)) k
     = (if k \<in> set (map fst s) then f (series_get s k) (series_get t k) else None)"
proof (induction s arbitrary: t)
  case Nil
  then show ?case by (simp add: series_get_def)
next
  case (Cons a s)
  then obtain b t' where t: "t = b # t'" by (cases t) auto
  with Cons.prems have eq: "fst a = fst b" "map fst s = map fst t'" and d: "distinct (map fst s)"
    and nin: "fst a \<notin> set (map fst s)" by auto
  from Cons.IH[OF eq(2) d] have ih:
    "series_get (map (\<lambda>(a, b). (fst a, f (snd a) (snd b))) (zip s t')) k
       = (if k \<in> set (map fst s) then f (series_get s k) (series_get t' k) else None)" .
  show ?case
  proof (cases "k = fst a")
    case True
    with t eq show ?thesis by (cases a; cases b) (simp add: series_get_def)
  next
    case False
    with t eq ih show ?thesis by (cases a; cases b) (auto simp: series_get_def)
  qed
qed

lemma series_get_tabulate:
  "series_get (map (\<lambda>k. (k, g k)) ks) k = (if k \<in> set ks then g k else None)"
  by (induction ks) (auto simp: series_get_def)

lemma series_get_absent: "k \<notin> set (map fst s) \<Longrightarrow> series_get s k = None"
  by (simp add: series_get_def map_of_eq_None_iff[THEN iffD2])

lemma cell_sub_None [simp]: "cell_sub None b = None" "cell_sub a None = None"
  by (simp_all add: cell_sub_def split: option.splits)

lemma series_get_sub:
  "distinct (map fst s) \<Longrightarrow>
   series_get (series_binop cell_sub s t) k = cell_sub (series_get s k) (series_get t k)"
proof (cases "map fst s = map fst t")
  case True
  assume "distinct (map fst s)"
  with True show ?thesis
    by (simp add: series_binop_def series_get_zip series_get_absent)
next
  case False
  show ?thesis
  proof (cases "k \<in> set (map fst s) \<union> set (map fst t)")
    case True
    with False show ?thesis by (simp add: series_binop_def series_get_tabulate)
  next
    case False
    then have "series_get s k = None" by (intro series_get_absent) simp
    with False \<open>map fst s \<noteq> map fst t\<close> show ?thesis
      by (simp add: series_binop_def series_get_tabulate)
  qed
qed

lemma fst_groupby_sum: "map fst (groupby_sum kvs) = sort (remdups (List.map_filter fst kvs))"
  by (simp add: groupby_sum_def comp_def)

lemma distinct_groupby_sum: "distinct (map fst (groupby_sum kvs))"
  by (simp add: fst_groupby_sum)

lemma set_map_filter_fst: "set (List.map_filter fst kvs) = {b. Some b \<in> fst ` set kvs}"
  by (induction kvs) (auto simp: List.map_filter_def)

lemma series_get_groupby_sum:
  "series_get (groupby_sum kvs) b
     = (if Some b \<in> fst ` set kvs
        then Some (sum_list (map snd (filter (\<lambda>kv. fst kv = Some b) kvs))) else None)"
  unfolding groupby_sum_def
  by (simp add: series_get_tabulate set_map_filter_fst)

lemma bucket_sum:
  "sum_list (map snd (filter (\<lambda>kv. fst kv = Some b) (bucket_balances tm sheet)))
     = sum_list (map Balance (filter (\<lambda>r. map_of tm (Type r) = Some b) sheet))"
  by (induction sheet) (auto simp: bucket_balances_def)

lemma bucket_mem:
  "Some b \<in> fst ` set (bucket_balances tm sheet) \<longleftrightarrow> bucket_has tm sheet b"
  by (induction sheet) (auto simp: bucket_balances_def bucket_has_def)

lemma gap_characterisation:
  "gap tm dm assets liabs
     = map (\<lambda>b. (b, if bucket_has tm assets b \<and> bucket_has tm liabs b
                      then gap_spec tm assets liabs b else 0)) (map fst dm)"
  by (simp add: gap_def fillna_def reindex_def series_get_sub distinct_groupby_sum
      series_get_groupby_sum bucket_sum bucket_mem gap_spec_def cell_sub_def comp_def)

text \<open>
  C5. At the default balances the buckets 3-12M (deposits of 130 only) and 1-5Y (loans of
  120 only) report the gap 0, where the sum of the asset balances minus the sum of the
  liability balances is -130 and 120.
\<close>

theorem gap_of_one_sided_bucket_is_zero:
  "gap tenor_map dur_map (assets_of default_inputs) (liabs_of default_inputs)
     = [(''0-3M'', 0), (''3-12M'', 0), (''1-5Y'', 0), (''5Y+'', 60)]
   \<and> map (gap_spec tenor_map (assets_of default_inputs) (liabs_of default_inputs))
         (map fst dur_map) = [0, - 130, 120, 60]"
  by (simp add: gap_def gap_spec_def tenor_map_def dur_map_def assets_of_def liabs_of_def
      default_inputs_def fillna_def reindex_def series_binop_def groupby_sum_def
      bucket_balances_def cell_sub_def series_get_def List.map_filter_def)

lemma dv01_scenario_formula:
  "dv01_scenario dm (name, bp) g = Inr rows \<Longrightarrow>
   rows = map (\<lambda>(bkt, pos). \<lparr>Scenario = name, Bucket = bkt,
                 DV01 = pos * (case map_of dm bkt of None \<Rightarrow> 0 | Some D \<Rightarrow> D) * (bp * 100)\<rparr>) g"
proof (induction g arbitrary: rows)
  case Nil
  then show ?case by simp
next
  case (Cons p g)
  obtain bkt pos where p: "p = (bkt, pos)" by (cases p)
  with Cons show ?case by (auto split: option.splits sum.splits)
qed

text \<open>
  C4. At the default balances the Adverse scenario (a shift of -0.01, that is -100 basis
  points) gives the bucket 5Y+ with gap 60 and duration 7.5 the DV01 -450, the gap times
  the duration times the shift in percent; gap times duration times the shift in basis
  points is -45000.
\<close>

theorem dv01_multiplies_by_percent_not_basis_points:
  "dv01_scenario dur_map (''Adverse'', - 0.01)
       (gap tenor_map dur_map (assets_of default_inputs) (liabs_of default_inputs))
     = Inr [\<lparr>Scenario = ''Adverse'', Bucket = ''0-3M'', DV01 = 0\<rparr>,
            \<lparr>Scenario = ''Adverse'', Bucket = ''3-12M'', DV01 = 0\<rparr>,
            \<lparr>Scenario = ''Adverse'', Bucket = ''1-5Y'', DV01 = 0\<rparr>,
            \<lparr>Scenario = ''Adverse'', Bucket = ''5Y+'', DV01 = - 450\<rparr>]
   \<and> dv01_spec 60 7.5 (- 0.01) = - 45000"
  by (simp add: gap_def dv01_spec_def tenor_map_def dur_map_def assets_of_def liabs_of_def
      default_inputs_def fillna_def reindex_def series_binop_def groupby_sum_def
      bucket_balances_def cell_sub_def series_get_def List.map_filter_def)

section \<open>The levels of the attribution\<close>

text \<open>
  With every business unit selected and the four codes in both rate maps, the three
  values built from whole columns are Series of six NaN for all balances and rates, and
  the two values built with zip are the netted sums over the matched positions.
\<close>

lemma attribution_all_units:
  assumes "r0_map ''GS3M'' = Some a0" "r0_map ''GS1'' = Some b0"
    "r0_map ''GS5'' = Some c0" "r0_map ''GS10'' = Some d0"
    "r1_map ''GS3M'' = Some a1" "r1_map ''GS1'' = Some b1"
    "r1_map ''GS5'' = Some c1" "r1_map ''GS10'' = Some d1"
  shows "attribution s e ''All'' r0_map r1_map
     = Inr \<lparr>nii0 = Ser [(0, None), (1, None), (2, None), (3, None), (4, None), (5, None)],
            rate_var = Ser [(0, None), (1, None), (2, None), (3, None), (4, None), (5, None)],
            vol_var = (loans e - loans s) * c0 + (bonds e - bonds s) * d0 + (cash e - cash s) * a0
                      - ((deposits e - deposits s) * b0 + (borrow e - borrow s) * a0
                         + (corp e - corp s) * a0),
            mix_var = (loans e - loans s) * (c1 - c0) + (bonds e - bonds s) * (d1 - d0)
                      + (cash e - cash s) * (a1 - a0)
                      - ((deposits e - deposits s) * (b1 - b0) + (borrow e - borrow s) * (a1 - a0)
                         + (corp e - corp s) * (a1 - a0)),
            nii1 = Ser [(0, None), (1, None), (2, None), (3, None), (4, None), (5, None)]\<rparr>"
  using assms
  by (simp add: attribution_def Let_def by_bu_def make_sheet_def isin_def col_B0_def col_B1_def
      col_Code_def column_terms_def zipped_terms_def rate_diff_def dict_item_def and_then_def
      py_sum_def series_scale_def series_binop_def cell_sub_def cell_add_def series_get_def)

text \<open>
  C1. At the default starting and ending balances, with every business unit selected,
  \<open>nii0\<close>, \<open>rate_var\<close> and \<open>nii1\<close> are Series of six NaN, not numbers: each generator item
  is a whole balance column times one rate, and the asset rows 0 to 2 share no label with
  the liability rows 3 to 5. The calculator of the same script gives the starting ledger
  the NII 3.8 and the ending ledger the NII 5, and \<open>vol_var\<close> and \<open>mix_var\<close>, which zip
  balances with codes, are 0.7 and 0.1.
\<close>

theorem attribution_levels_are_nan_series:
  "attribution default_start default_inputs ''All'' sample_yields sample_yields_end
     = Inr \<lparr>nii0 = Ser [(0, None), (1, None), (2, None), (3, None), (4, None), (5, None)],
            rate_var = Ser [(0, None), (1, None), (2, None), (3, None), (4, None), (5, None)],
            vol_var = 7 / 10,
            mix_var = 1 / 10,
            nii1 = Ser [(0, None), (1, None), (2, None), (3, None), (4, None), (5, None)]\<rparr>
   \<and> compute_nii (assets_of default_start) (liabs_of default_start) sample_yields = Inr (19 / 5)
   \<and> compute_nii (assets_of default_inputs) (liabs_of default_inputs) sample_yields_end = Inr 5"
  by (simp add: attribution_def Let_def by_bu_def make_sheet_def isin_def col_B0_def col_B1_def
      col_Code_def column_terms_def zipped_terms_def rate_diff_def dict_item_def and_then_def
      py_sum_def series_scale_def series_binop_def cell_sub_def cell_add_def series_get_def
      default_start_def default_inputs_def sample_yields_def sample_yields_end_def
      compute_nii_def assets_of_def liabs_of_def column_sum_def)

section \<open>The total of the waterfall and the change of the NII\<close>

text \<open>
  The total of corp2.py, which nets the balances by code, ends at the difference of the
  two NII values.
\<close>

lemma wf2_loop_total:
  "wf2_loop nb shifts yields_current cs cum = Inr (steps, tot) \<Longrightarrow>
   tot = cum + sum_list (map (\<lambda>c. nb c * (dict_get shifts c 0 - dict_get yields_current c 0)) cs)"
proof (induction cs arbitrary: cum steps)
  case Nil
  then show ?case by simp
next
  case (Cons c cs)
  from Cons.prems obtain s y label rest where
    sy: "shifts c = Some s" "yields_current c = Some y" "map_of yield_labels c = Some label"
    and r: "wf2_loop nb shifts yields_current cs (cum + nb c * (s - y)) = Inr (rest, tot)"
    by (auto simp: Let_def split: option.splits sum.splits prod.splits)
  from Cons.IH[OF r] sy show ?case by (simp add: dict_get_def)
qed

lemma sum_by_code:
  "set (map Code sheet) \<subseteq> set yield_codes \<Longrightarrow>
   sum_list (map (\<lambda>c. sum_list (map Balance (filter (\<lambda>r. Code r = c) sheet)) * w c) yield_codes)
     = sum_list (map (\<lambda>r. Balance r * w (Code r)) sheet)"
  by (induction sheet) (auto simp: yield_codes_def algebra_simps)

lemma column_sum_calculate:
  "column_sum (calculate sheet ylds field)
     = sum_list (map (\<lambda>r. Balance r * dict_get ylds (Code r) 0) sheet)"
  by (induction sheet) (simp_all add: column_sum_def calculate_def calculate_row_def)

lemma wf_corp2_total_reconciles:
  assumes "set (map Code assets) \<subseteq> set yield_codes"
    and "set (map Code liabilities) \<subseteq> set yield_codes"
    and "wf_corp2 assets liabilities yields_current shifts = Inr ws"
  shows "End (last ws) = nii (compute_ii assets liabilities shifts)
                        - nii (compute_ii assets liabilities yields_current)"
proof -
  let ?w = "\<lambda>c. dict_get shifts c 0 - dict_get yields_current c 0"
  from assms(3) obtain steps cum where
    l: "wf2_loop (net_bal assets liabilities) shifts yields_current yield_codes 0 = Inr (steps, cum)"
    and ws: "ws = [\<lparr>Maturity = ''Baseline'', dNII = 0, Start = 0, End = 0\<rparr>] @ steps @
               [\<lparr>Maturity = ''Total'', dNII = round2 cum, Start = 0, End = cum\<rparr>]"
    by (auto simp: wf_corp2_def split: sum.splits prod.splits)
  have "cum = sum_list (map (\<lambda>c. net_bal assets liabilities c * ?w c) yield_codes)"
    using wf2_loop_total[OF l] by simp
  also have "\<dots> = sum_list (map (\<lambda>c. sum_list (map Balance (filter (\<lambda>r. Code r = c) assets)) * ?w c) yield_codes)
                 - sum_list (map (\<lambda>c. sum_list (map Balance (filter (\<lambda>r. Code r = c) liabilities)) * ?w c) yield_codes)"
    by (simp add: net_bal_def yield_codes_def algebra_simps)
  also have "\<dots> = sum_list (map (\<lambda>r. Balance r * ?w (Code r)) assets)
                 - sum_list (map (\<lambda>r. Balance r * ?w (Code r)) liabilities)"
    by (simp add: sum_by_code[OF assms(1)] sum_by_code[OF assms(2)])
  also have "\<dots> = nii (compute_ii assets liabilities shifts)
                 - nii (compute_ii assets liabilities yields_current)"
    by (simp add: compute_ii_def Let_def column_sum_calculate algebra_simps sum_list_subtractf
        sum_list_addf)
  finally show ?thesis using ws by simp
qed

text \<open>
  The loop of corp3.py and corp_fin.py reads one balance per label from \<^verbatim>\<open>balances\<close> and
  adds all four products: the deposits count like an asset, borrow and corp not at all.
\<close>

lemma wf1_unfold:
  assumes "yields_current ''GS3M'' = Some a0" "yields_current ''GS1'' = Some b0"
    "yields_current ''GS5'' = Some c0" "yields_current ''GS10'' = Some d0"
    "shifted_map ''GS3M'' = Some a1" "shifted_map ''GS1'' = Some b1"
    "shifted_map ''GS5'' = Some c1" "shifted_map ''GS10'' = Some d1"
  shows "wf1 inp yields_current shifted_map
           = Inr (wf_frame
                    [(''3M'', round2 (cash inp * a1 - cash inp * a0)),
                     (''1Y'', round2 (deposits inp * b1 - deposits inp * b0)),
                     (''5Y'', round2 (loans inp * c1 - loans inp * c0)),
                     (''10Y'', round2 (bonds inp * d1 - bonds inp * d0))]
                    (cash inp * a1 + deposits inp * b1 + loans inp * c1 + bonds inp * d1
                     - (cash inp * a0 + deposits inp * b0 + loans inp * c0 + bonds inp * d0)))"
  using assms by (simp add: wf1_def yield_labels_def balances_of_def Let_def)

lemma wf1_total_formula:
  assumes "yields_current ''GS3M'' = Some a0" "yields_current ''GS1'' = Some b0"
    "yields_current ''GS5'' = Some c0" "yields_current ''GS10'' = Some d0"
    "shifted_map ''GS3M'' = Some a1" "shifted_map ''GS1'' = Some b1"
    "shifted_map ''GS5'' = Some c1" "shifted_map ''GS10'' = Some d1"
  shows "\<exists>ws. wf1 inp yields_current shifted_map = Inr ws
           \<and> Maturity (last ws) = ''Total''
           \<and> dNII (last ws)
               = round2 (cash inp * (a1 - a0) + deposits inp * (b1 - b0)
                         + loans inp * (c1 - c0) + bonds inp * (d1 - d0))"
proof -
  have e: "cash inp * a1 + deposits inp * b1 + loans inp * c1 + bonds inp * d1
             - (cash inp * a0 + deposits inp * b0 + loans inp * c0 + bonds inp * d0)
           = cash inp * (a1 - a0) + deposits inp * (b1 - b0)
               + loans inp * (c1 - c0) + bonds inp * (d1 - d0)"
    by (simp only: right_diff_distrib)
  show ?thesis
    unfolding wf1_unfold[OF assms] e
    using last_wf_frame by blast
qed

lemma compute_nii_formula:
  assumes "ym ''GS3M'' = Some a" "ym ''GS1'' = Some b" "ym ''GS5'' = Some c" "ym ''GS10'' = Some d"
  shows "compute_nii (assets_of inp) (liabs_of inp) ym
           = Inr (loans inp * c + bonds inp * d + cash inp * a
                  - (deposits inp * b + borrow inp * a + corp inp * a))"
  using assms by (simp add: compute_nii_def assets_of_def liabs_of_def column_sum_def)

text \<open>
  C3. On the ledger of the specification's worked example (loans 120 at 5Y = 0.04,
  deposits 130 at 1Y = 0.03) under a uniform shift of -0.01 the NII moves from 0.9 to 1,
  a change of 0.1, and the Total step of the waterfall of corp_fin.py shows -2.5.
\<close>

theorem wf1_total_is_not_the_nii_change:
  "compute_nii (assets_of example_inputs) (liabs_of example_inputs) sample_yields = Inr (9 / 10)
   \<and> (\<exists>sh. shifted sample_yields (flat_shifts (- 0.01)) = Inr sh
         \<and> compute_nii (assets_of example_inputs) (liabs_of example_inputs) sh = Inr 1
         \<and> wf1 example_inputs sample_yields sh
             = Inr [\<lparr>Maturity = ''Baseline'', dNII = 0, Start = 0, End = 0\<rparr>,
                    \<lparr>Maturity = ''3M'', dNII = 0, Start = 0, End = 0\<rparr>,
                    \<lparr>Maturity = ''1Y'', dNII = - (13 / 10), Start = 0, End = - (13 / 10)\<rparr>,
                    \<lparr>Maturity = ''5Y'', dNII = - (6 / 5), Start = - (13 / 10), End = - (5 / 2)\<rparr>,
                    \<lparr>Maturity = ''10Y'', dNII = 0, Start = - (5 / 2), End = - (5 / 2)\<rparr>,
                    \<lparr>Maturity = ''Total'', dNII = - (5 / 2), Start = - (5 / 2), End = - 5\<rparr>])"
  by (simp add: compute_nii_def assets_of_def liabs_of_def example_inputs_def sample_yields_def
      shifted_def flat_shifts_def yield_codes_def yield_labels_def column_sum_def
      wf1_def balances_of_def wf_frame_def shift_fill_def round2_def round_half_even_def Let_def)

section \<open>The waterfall of corp3.py and corp_fin.py is a cumsum frame\<close>

lemma wf1_is_running_chain:
  "wf1 inp yields_current shifted_map = Inr ws \<Longrightarrow>
   running_chain ws
   \<and> hd ws = \<lparr>Maturity = ''Baseline'', dNII = 0, Start = 0, End = 0\<rparr>
   \<and> Maturity (last ws) = ''Total''"
  by (auto simp: wf1_def running_chain_wf_frame hd_wf_frame last_wf_frame
      split: sum.splits prod.splits)


section \<open>The waterfalls as the scripts return them\<close>

lemma wf2_loop_chained:
  "set cs \<subseteq> set yield_codes \<Longrightarrow> set cs \<subseteq> dom shifts \<Longrightarrow> set cs \<subseteq> dom yields_current \<Longrightarrow>
   \<exists>steps tot. wf2_loop nb shifts yields_current cs cum = Inr (steps, tot)
     \<and> chained_from cum
           (map (\<lambda>c. nb c * (dict_get shifts c 0 - dict_get yields_current c 0)) cs) steps tot"
proof (induction cs arbitrary: cum)
  case Nil
  then show ?case by simp
next
  case (Cons c cs)
  from Cons.prems obtain s y where sy: "shifts c = Some s" "yields_current c = Some y" by auto
  from Cons.prems yield_label_of_code[of c] obtain label where
    lb: "map_of yield_labels c = Some label" by auto
  from Cons.IH[of "cum + nb c * (s - y)"] Cons.prems obtain steps tot where
    st: "wf2_loop nb shifts yields_current cs (cum + nb c * (s - y)) = Inr (steps, tot)"
      "chained_from (cum + nb c * (s - y))
         (map (\<lambda>c. nb c * (dict_get shifts c 0 - dict_get yields_current c 0)) cs) steps tot"
    by auto
  from sy lb st show ?case by (simp add: Let_def dict_get_def)
qed

lemma chained_from_length: "chained_from cum ds steps tot \<Longrightarrow> length steps = length ds"
  by (induction cum ds steps tot rule: chained_from.induct) simp_all

lemma chained_from_total: "chained_from cum ds steps tot \<Longrightarrow> tot = cum + sum_list ds"
  by (induction cum ds steps tot rule: chained_from.induct) simp_all

lemma chained_from_index:
  "chained_from cum ds steps tot \<Longrightarrow>
     (\<forall>i<length steps. End (steps ! i) = Start (steps ! i) + ds ! i
                        \<and> dNII (steps ! i) = round2 (ds ! i))
   \<and> (\<forall>i. Suc i < length steps \<longrightarrow> Start (steps ! Suc i) = End (steps ! i))
   \<and> (if steps = [] then tot = cum else Start (hd steps) = cum \<and> End (last steps) = tot)"
proof (induction cum ds steps tot rule: chained_from.induct)
  case (1 cum tot)
  then show ?case by simp
next
  case (2 cum d ds w ws tot)
  then have w: "Start w = cum" "End w = cum + d" "dNII w = round2 d"
    and c: "chained_from (cum + d) ds ws tot"
    by simp_all
  from "2.IH"[OF c] have ih:
    "\<forall>i<length ws. End (ws ! i) = Start (ws ! i) + ds ! i \<and> dNII (ws ! i) = round2 (ds ! i)"
    "\<forall>i. Suc i < length ws \<longrightarrow> Start (ws ! Suc i) = End (ws ! i)"
    "if ws = [] then tot = cum + d else Start (hd ws) = cum + d \<and> End (last ws) = tot"
    by simp_all
  have a: "\<forall>i<length (w # ws). End ((w # ws) ! i) = Start ((w # ws) ! i) + (d # ds) ! i
                        \<and> dNII ((w # ws) ! i) = round2 ((d # ds) ! i)"
    using w ih(1) by (simp add: All_less_Suc2)
  have b: "\<forall>i. Suc i < length (w # ws) \<longrightarrow> Start ((w # ws) ! Suc i) = End ((w # ws) ! i)"
  proof (intro allI impI)
    fix i assume i: "Suc i < length (w # ws)"
    show "Start ((w # ws) ! Suc i) = End ((w # ws) ! i)"
    proof (cases i)
      case 0
      with i ih(3) w show ?thesis by (cases ws) (auto split: if_splits)
    next
      case (Suc j)
      with i ih(2) show ?thesis by simp
    qed
  qed
  from a b w ih(3) show ?case by (auto split: if_splits)
next
  case (3 cum w ws tot)
  then show ?case by simp
next
  case (4 cum d ds tot)
  then show ?case by simp
qed

lemma wf1_returns_a_chain:
  assumes "yields_current ''GS3M'' = Some a0" "yields_current ''GS1'' = Some b0"
    "yields_current ''GS5'' = Some c0" "yields_current ''GS10'' = Some d0"
    "shifted_map ''GS3M'' = Some a1" "shifted_map ''GS1'' = Some b1"
    "shifted_map ''GS5'' = Some c1" "shifted_map ''GS10'' = Some d1"
  shows "\<exists>ws. wf1 inp yields_current shifted_map = Inr ws
           \<and> length ws = 6
           \<and> hd ws = \<lparr>Maturity = ''Baseline'', dNII = 0, Start = 0, End = 0\<rparr>
           \<and> Maturity (last ws) = ''Total''
           \<and> running_chain ws"
  unfolding wf1_unfold[OF assms]
  using running_chain_wf_frame hd_wf_frame last_wf_frame length_wf_frame by simp

lemma wf_corp2_returns_chained:
  assumes "yields_current ''GS3M'' = Some a0" "yields_current ''GS1'' = Some b0"
    "yields_current ''GS5'' = Some c0" "yields_current ''GS10'' = Some d0"
    "shifts ''GS3M'' = Some a1" "shifts ''GS1'' = Some b1"
    "shifts ''GS5'' = Some c1" "shifts ''GS10'' = Some d1"
  shows "\<exists>steps cum.
           wf_corp2 assets liabilities yields_current shifts
             = Inr ([\<lparr>Maturity = ''Baseline'', dNII = 0, Start = 0, End = 0\<rparr>] @ steps @
                    [\<lparr>Maturity = ''Total'', dNII = round2 cum, Start = 0, End = cum\<rparr>])
         \<and> map Maturity steps = [''3M'', ''1Y'', ''5Y'', ''10Y'']
         \<and> chained_from 0
              [net_bal assets liabilities ''GS3M'' * (a1 - a0),
               net_bal assets liabilities ''GS1'' * (b1 - b0),
               net_bal assets liabilities ''GS5'' * (c1 - c0),
               net_bal assets liabilities ''GS10'' * (d1 - d0)] steps cum"
  using assms
  by (simp add: wf_corp2_def yield_codes_def yield_labels_def Let_def)

text \<open>
  C6 (as amended). When both yield maps have the four codes, the waterfall of corp3.py and
  corp_fin.py is returned, has six steps, starts with the Baseline anchor of delta 0, ends
  with the Total step, and is a running-sum chain at every index. Under the same condition
  the waterfall of corp2.py is returned, starts with the Baseline anchor and ends with
  the Total step; its four tenor steps are read from the running value 0: each starts
  where the one before it ended, ends at its start plus the unrounded delta (the net
  balance at its code times the change of the rate), and shows that delta rounded to 2
  decimals; its Total step starts at 0, ends at the running value after the last tenor
  step, and shows that value rounded to 2 decimals.
\<close>

theorem waterfall_chain_by_construction:
  assumes "yields_current ''GS3M'' = Some a0" and "yields_current ''GS1'' = Some b0"
    and "yields_current ''GS5'' = Some c0" and "yields_current ''GS10'' = Some d0"
    and "shifts ''GS3M'' = Some a1" and "shifts ''GS1'' = Some b1"
    and "shifts ''GS5'' = Some c1" and "shifts ''GS10'' = Some d1"
  shows "(\<exists>ws. wf1 inp yields_current shifts = Inr ws
            \<and> length ws = 6
            \<and> hd ws = \<lparr>Maturity = ''Baseline'', dNII = 0, Start = 0, End = 0\<rparr>
            \<and> Maturity (last ws) = ''Total''
            \<and> running_chain ws)
       \<and> (\<exists>steps cum.
             wf_corp2 assets liabilities yields_current shifts
               = Inr ([\<lparr>Maturity = ''Baseline'', dNII = 0, Start = 0, End = 0\<rparr>] @ steps @
                      [\<lparr>Maturity = ''Total'', dNII = round2 cum, Start = 0, End = cum\<rparr>])
           \<and> map Maturity steps = [''3M'', ''1Y'', ''5Y'', ''10Y'']
           \<and> chained_from 0
                [net_bal assets liabilities ''GS3M'' * (a1 - a0),
                 net_bal assets liabilities ''GS1'' * (b1 - b0),
                 net_bal assets liabilities ''GS5'' * (c1 - c0),
                 net_bal assets liabilities ''GS10'' * (d1 - d0)] steps cum)"
  using wf1_returns_a_chain[OF assms, of inp] wf_corp2_returns_chained[OF assms, of assets liabilities]
  by blast

theorem waterfall_chain_by_construction_witness:
  "(\<exists>ws. wf1 default_inputs sample_yields shifts_25bp = Inr ws
       \<and> length ws = 6
       \<and> hd ws = \<lparr>Maturity = ''Baseline'', dNII = 0, Start = 0, End = 0\<rparr>
       \<and> Maturity (last ws) = ''Total''
       \<and> running_chain ws)
   \<and> (\<exists>steps cum.
         wf_corp2 corp2_assets corp2_liabilities sample_yields shifts_25bp
           = Inr ([\<lparr>Maturity = ''Baseline'', dNII = 0, Start = 0, End = 0\<rparr>] @ steps @
                  [\<lparr>Maturity = ''Total'', dNII = round2 cum, Start = 0, End = cum\<rparr>])
       \<and> map Maturity steps = [''3M'', ''1Y'', ''5Y'', ''10Y'']
       \<and> chained_from 0
            [net_bal corp2_assets corp2_liabilities ''GS3M'' * (0.0225 - 0.02),
             net_bal corp2_assets corp2_liabilities ''GS1'' * (0.0325 - 0.03),
             net_bal corp2_assets corp2_liabilities ''GS5'' * (0.0425 - 0.04),
             net_bal corp2_assets corp2_liabilities ''GS10'' * (0.0525 - 0.05)] steps cum)"
proof -
  have y: "sample_yields ''GS3M'' = Some 0.02" "sample_yields ''GS1'' = Some 0.03"
    "sample_yields ''GS5'' = Some 0.04" "sample_yields ''GS10'' = Some 0.05"
    by (simp_all add: sample_yields_def)
  have s: "shifts_25bp ''GS3M'' = Some 0.0225" "shifts_25bp ''GS1'' = Some 0.0325"
    "shifts_25bp ''GS5'' = Some 0.0425" "shifts_25bp ''GS10'' = Some 0.0525"
    by (simp_all add: shifts_25bp_def)
  show ?thesis
    by (rule waterfall_chain_by_construction [OF y s])
qed

end
